theory Spec2Isabelle
  imports Complex_Main
begin

section \<open>Python values and library calls\<close>

text \<open>
  The bridges receive JSON. A value returned by \<open>json.loads\<close> is a \<open>json\<close>. A number carries
  the value of the Python object, which is an \<open>int\<close> of any size or a finite double; the
  literals \<open>NaN\<close> and \<open>Infinity\<close> are outside the model. An object carries the items of the
  resulting \<open>dict\<close> in iteration order.
\<close>

datatype json =
    JNull
  | JBool bool
  | JNum real
  | JStr string
  | JArr "json list"
  | JObj "(string \<times> json) list"

datatype exn =
    ValueError string
  | TypeError
  | AttributeError
  | JSONDecodeError
  | UnicodeDecodeError
  | OverflowError
  | RuntimeError string
  | TimeoutError
  | DriverError

text \<open>
  \<open>float(s)\<close> and \<open>int(s)\<close> on a string are library parsers; they are parameters of the model
  (\<open>None\<close> when the parser raises \<open>ValueError\<close>).
\<close>

record pylib =
  str_to_float :: "string \<Rightarrow> real option"
  str_to_int :: "string \<Rightarrow> int option"

text \<open>\<open>int(x)\<close> on a float truncates towards zero.\<close>

definition py_int :: "real \<Rightarrow> int" where
  "py_int x = (if 0 \<le> x then \<lfloor>x\<rfloor> else \<lceil>x\<rceil>)"

text \<open>\<open>round(x)\<close> on a float rounds to the nearest integer, ties to the even one.\<close>

definition py_round :: "real \<Rightarrow> int" where
  "py_round x =
     (let f = \<lfloor>x\<rfloor>; r = x - of_int f
      in if r < 1/2 then f else if 1/2 < r then f + 1 else if even f then f else f + 1)"

text \<open>
  Python floats are IEEE 754 doubles, and every float operation returns its exact result
  rounded to the nearest double, ties to the even significand. \<open>binade x\<close> is the exponent
  \<open>e\<close> with \<open>2^e \<le> x < 2^(e+1)\<close>. A double has 53 significant bits, so the doubles of that
  binade are \<open>2^(e-52)\<close> apart; below \<open>2^-1022\<close> the spacing stays \<open>2^-1074\<close>. Results
  beyond the largest double are not turned into infinities: the one conversion in the
  bridges that can leave the range is \<open>float\<close> of a large \<open>int\<close>, which raises
  \<open>OverflowError\<close> from \<open>double_overflow\<close> on (halfway between the largest double and
  \<open>2^1024\<close>).
\<close>

function binade :: "real \<Rightarrow> int" where
  "binade x =
     (if x \<le> 0 then 0
      else if 2 \<le> x then binade (x / 2) + 1
      else if x < 1 then binade (2 * x) - 1
      else 0)"
  by pat_completeness auto
termination
proof (relation "measure (\<lambda>x. nat \<bar>\<lfloor>log 2 x\<rfloor>\<bar>)")
  show "wf (measure (\<lambda>x. nat \<bar>\<lfloor>log 2 x\<rfloor>\<bar>))" by simp
next
  fix x :: real
  assume "\<not> x \<le> 0" and "2 \<le> x"
  then have l: "log 2 (x / 2) = log 2 x - 1" and "1 \<le> log 2 x"
    by (simp_all add: log_divide le_log_iff)
  then have "1 \<le> \<lfloor>log 2 x\<rfloor>" and "\<lfloor>log 2 (x / 2)\<rfloor> = \<lfloor>log 2 x\<rfloor> - 1"
    by (simp_all add: le_floor_iff)
  then have "nat \<bar>\<lfloor>log 2 (x / 2)\<rfloor>\<bar> < nat \<bar>\<lfloor>log 2 x\<rfloor>\<bar>" by linarith
  then show "(x / 2, x) \<in> measure (\<lambda>x. nat \<bar>\<lfloor>log 2 x\<rfloor>\<bar>)" by simp
next
  fix x :: real
  assume "\<not> x \<le> 0" and "\<not> 2 \<le> x" and "x < 1"
  then have l: "log 2 (2 * x) = log 2 x + 1" and "log 2 x < 0"
    by (simp_all add: log_mult)
  then have "\<lfloor>log 2 x\<rfloor> \<le> - 1" and "\<lfloor>log 2 (2 * x)\<rfloor> = \<lfloor>log 2 x\<rfloor> + 1"
    by (simp_all add: floor_le_iff)
  then have "nat \<bar>\<lfloor>log 2 (2 * x)\<rfloor>\<bar> < nat \<bar>\<lfloor>log 2 x\<rfloor>\<bar>" by linarith
  then show "(2 * x, x) \<in> measure (\<lambda>x. nat \<bar>\<lfloor>log 2 x\<rfloor>\<bar>)" by simp
qed

declare binade.simps [simp del]

text \<open>The spacing of the doubles around \<open>x\<close>, and \<open>x\<close> rounded to the nearest of them.\<close>

definition ulp :: "real \<Rightarrow> real" where
  "ulp x = 2 powi (max (binade \<bar>x\<bar>) (- 1022) - 52)"

definition double_round :: "real \<Rightarrow> real" where
  "double_round x = sgn x * (ulp x * of_int (py_round (\<bar>x\<bar> / ulp x)))"

definition double_overflow :: real where
  "double_overflow = 2 ^ 1024 - 2 ^ 970"

text \<open>
  \<open>float(v)\<close> and \<open>int(v)\<close> on a value that came out of \<open>json.loads\<close>. \<open>float\<close> of an \<open>int\<close>
  rounds it to the nearest double or raises \<open>OverflowError\<close>; a double is returned as it is
  (rounding does not change it).
\<close>

fun float_of :: "pylib \<Rightarrow> json \<Rightarrow> exn + real" where
  "float_of L (JNum r) =
     (if double_overflow \<le> \<bar>r\<bar> then Inl OverflowError else Inr (double_round r))"
| "float_of L (JBool b) = Inr (if b then 1 else 0)"
| "float_of L (JStr s) =
     (case str_to_float L s of
        Some r \<Rightarrow> Inr r
      | None \<Rightarrow> Inl (ValueError ''could not convert string to float''))"
| "float_of L _ = Inl TypeError"

fun int_of :: "pylib \<Rightarrow> json \<Rightarrow> exn + int" where
  "int_of L (JNum r) = Inr (py_int r)"
| "int_of L (JBool b) = Inr (if b then 1 else 0)"
| "int_of L (JStr s) =
     (case str_to_int L s of
        Some n \<Rightarrow> Inr n
      | None \<Rightarrow> Inl (ValueError ''invalid literal for int()''))"
| "int_of L _ = Inl TypeError"

text \<open>\<open>msg.get(k, dflt)\<close>: only a dict has \<open>get\<close>.\<close>

fun dict_get :: "json \<Rightarrow> string \<Rightarrow> json \<Rightarrow> exn + json" where
  "dict_get (JObj kvs) k dflt = Inr (case map_of kvs k of None \<Rightarrow> dflt | Some v \<Rightarrow> v)"
| "dict_get _ k dflt = Inl AttributeError"

text \<open>
  What \<open>rfile.read(n)\<close> delivered, by what \<open>decode("utf-8")\<close> and \<open>json.loads\<close> make of it.
\<close>

datatype raw_body = NoBytes | BadUtf8 | BadJson | Json json

fun loads :: "raw_body \<Rightarrow> exn + json" where
  "loads NoBytes = Inl JSONDecodeError"
| "loads BadUtf8 = Inl UnicodeDecodeError"
| "loads BadJson = Inl JSONDecodeError"
| "loads (Json j) = Inr j"

definition bind_sum :: "exn + 'a \<Rightarrow> ('a \<Rightarrow> exn + 'b) \<Rightarrow> exn + 'b" where
  "bind_sum a f = (case a of Inl e \<Rightarrow> Inl e | Inr x \<Rightarrow> f x)"

section \<open>Angle codec\<close>

definition clamp :: "'a::linorder \<Rightarrow> 'a \<Rightarrow> 'a \<Rightarrow> 'a" where
  "clamp v lo hi = max lo (min hi v)"

text \<open>
  \<open>degrees_to_pulse\<close> and \<open>degrees_to_pwm_us\<close> of \<open>servo_reciever.py\<close>; \<open>servo_receiver_ws.py\<close>
  repeats both definitions word for word. The division, the product and the sum are float
  operations, each rounded to a double.
\<close>

definition degrees_to_pulse :: "pylib \<Rightarrow> json \<Rightarrow> exn + int" where
  "degrees_to_pulse L deg =
     (case float_of L deg of
        Inl e \<Rightarrow> Inl e
      | Inr d \<Rightarrow> Inr (py_round (double_round (double_round (clamp d 0 180 / 180) * 1000))))"

definition degrees_to_pwm_us :: "pylib \<Rightarrow> json \<Rightarrow> exn + int" where
  "degrees_to_pwm_us L deg =
     (case float_of L deg of
        Inl e \<Rightarrow> Inl e
      | Inr d \<Rightarrow>
          Inr (py_round
                 (double_round (500 + double_round (double_round (clamp d 0 180 / 180) * 2000)))))"

text \<open>
  \<open>deg_to_bus_pos\<close> and \<open>deg_to_pwm_us\<close> of \<open>tonypi_servo_server.py\<close>; \<open>float(deg)\<close> is the
  first rounding.
\<close>

definition deg_to_bus_pos :: "real \<Rightarrow> int" where
  "deg_to_bus_pos deg =
     (let d = clamp (double_round deg) 0 180
      in py_round (double_round (double_round (d / 180) * 1000)))"

definition deg_to_pwm_us :: "real \<Rightarrow> int" where
  "deg_to_pwm_us deg =
     (let d = clamp (double_round deg) 0 180
      in py_round (double_round (500 + double_round (double_round (d / 180) * 2000))))"

text \<open>
  \<open>degrees_to_pulse\<close> of \<open>servo_client.py\<close>: safety limits 10..170, the quotient and the
  product in doubles, then \<open>int(...)\<close>. Its argument is a float (\<open>interactive_loop\<close> passes
  \<open>float(parts[1])\<close>), which the first rounding expresses.
\<close>

definition client_degrees_to_pulse :: "real \<Rightarrow> int" where
  "client_degrees_to_pulse degrees =
     (let degrees = max 10 (min 170 (double_round degrees));
          pulse = double_round (double_round (degrees / 180) * 1000)
      in py_int pulse)"

section \<open>Driver calls, traces and exceptions\<close>

text \<open>
  The vendor driver is outside the repository. A driver object is known by the method names
  it offers (what \<open>hasattr\<close> answers) and by which calls raise. A run of the bridge leaves a
  trace: the driver calls it made, in order, and the errors it printed.
\<close>

datatype drv_method = set_bus_servo_pulse | setBusServoPulse | set_pwm_servo_pulse | setPWMServoPulse

datatype hw_call = Call drv_method "int" "int" "int"

datatype event = Hw hw_call | Logged exn

record driver =
  attrs :: "drv_method set"
  raises :: "hw_call \<Rightarrow> bool"

type_synonym 'a run = "(exn + 'a) \<times> event list"

definition lift :: "exn + 'a \<Rightarrow> 'a run" where
  "lift r = (r, [])"

definition bind_run :: "'a run \<Rightarrow> ('a \<Rightarrow> 'b run) \<Rightarrow> 'b run" where
  "bind_run a f =
     (case a of
        (Inl e, t) \<Rightarrow> (Inl e, t)
      | (Inr x, t) \<Rightarrow> (case f x of (r, t') \<Rightarrow> (r, t @ t')))"

definition then_do :: "unit run \<Rightarrow> unit run \<Rightarrow> unit run" where
  "then_do a b = bind_run a (\<lambda>_. b)"

fun for_each :: "('a \<Rightarrow> unit run) \<Rightarrow> 'a list \<Rightarrow> unit run" where
  "for_each f [] = (Inr (), [])"
| "for_each f (x # xs) = then_do (f x) (for_each f xs)"

text \<open>\<open>try: ... except Exception as e: print(...)\<close>\<close>

definition try_log :: "unit run \<Rightarrow> unit run" where
  "try_log a = (case a of (Inl e, t) \<Rightarrow> (Inr (), t @ [Logged e]) | (Inr x, t) \<Rightarrow> (Inr x, t))"

definition hasattr :: "driver option \<Rightarrow> drv_method \<Rightarrow> bool" where
  "hasattr c m = (case c of None \<Rightarrow> False | Some d \<Rightarrow> m \<in> attrs d)"

text \<open>A method call on the driver object: a missing method is an \<open>AttributeError\<close>.\<close>

definition invoke :: "driver option \<Rightarrow> hw_call \<Rightarrow> unit run" where
  "invoke c call =
     (case c of
        None \<Rightarrow> (Inl AttributeError, [])
      | Some d \<Rightarrow>
          (case call of Call m i v t \<Rightarrow>
             if m \<notin> attrs d then (Inl AttributeError, [])
             else (if raises d call then Inl DriverError else Inr (), [Hw call])))"

definition hw_calls :: "event list \<Rightarrow> hw_call list" where
  "hw_calls t = concat (map (\<lambda>e. case e of Hw c \<Rightarrow> [c] | Logged _ \<Rightarrow> []) t)"

section \<open>The receivers' module state\<close>

record robot =
  ROBOT_AVAILABLE :: bool
  controller :: "driver option"

datatype 'a import_result = Imported 'a | ImportError | Raised exn


subsection \<open>\<open>servo_reciever.py\<close>\<close>

definition set_bus_servo :: "robot \<Rightarrow> int \<Rightarrow> int \<Rightarrow> int \<Rightarrow> unit run" where
  "set_bus_servo R servo_id pulse time_ms =
     (let pulse = clamp pulse 0 1000; time_ms = max 0 time_ms
      in if \<not> ROBOT_AVAILABLE R then (Inr (), [])
         else try_log
           (if hasattr (controller R) set_bus_servo_pulse
            then invoke (controller R) (Call set_bus_servo_pulse servo_id pulse time_ms)
            else if hasattr (controller R) setBusServoPulse
            then invoke (controller R) (Call setBusServoPulse servo_id pulse time_ms)
            else (Inr (), [])))"

definition set_pwm_servo :: "robot \<Rightarrow> int \<Rightarrow> int \<Rightarrow> int \<Rightarrow> unit run" where
  "set_pwm_servo R channel pulse_us time_ms =
     (let pulse_us = clamp pulse_us 500 2500; time_ms = max 0 time_ms
      in if \<not> ROBOT_AVAILABLE R then (Inr (), [])
         else try_log
           (if hasattr (controller R) set_pwm_servo_pulse
            then invoke (controller R) (Call set_pwm_servo_pulse channel pulse_us time_ms)
            else if hasattr (controller R) setPWMServoPulse
            then invoke (controller R) (Call setPWMServoPulse channel pulse_us time_ms)
            else (Inr (), [])))"

definition reset_to_neutral :: "robot \<Rightarrow> int \<Rightarrow> unit run" where
  "reset_to_neutral R time_ms =
     then_do (for_each (\<lambda>servo_id. set_bus_servo R servo_id 500 time_ms) [1..16])
       (then_do (set_pwm_servo R 1 1500 time_ms) (set_pwm_servo R 2 1500 time_ms))"

record request =
  path :: string
  content_length :: "string option"
  body :: raw_body

text \<open>A response: status, headers, and the exception whose text is the JSON error body.\<close>

record response =
  status :: nat
  headers :: "(string \<times> string) list"
  error_body :: "exn option"

definition send_cors_headers :: "(string \<times> string) list" where
  "send_cors_headers =
     [(''Access-Control-Allow-Origin'', ''*''),
      (''Access-Control-Allow-Methods'', ''POST, OPTIONS''),
      (''Access-Control-Allow-Headers'', ''Content-Type'')]"

definition do_OPTIONS :: response where
  "do_OPTIONS = \<lparr>status = 204, headers = send_cors_headers, error_body = None\<rparr>"

text \<open>
  \<open>content_length = int(self.headers.get("Content-Length", 0))\<close>,
  \<open>body = self.rfile.read(content_length).decode("utf-8") if content_length else "{}"\<close>,
  \<open>msg = json.loads(body)\<close>.
\<close>

definition read_msg :: "pylib \<Rightarrow> request \<Rightarrow> exn + json" where
  "read_msg L req =
     (case (case content_length req of
              None \<Rightarrow> Inr 0
            | Some s \<Rightarrow> (case str_to_int L s of
                           None \<Rightarrow> Inl (ValueError ''invalid literal for int()'')
                         | Some n \<Rightarrow> Inr n)) of
        Inl e \<Rightarrow> Inl e
      | Inr n \<Rightarrow>
          if n \<noteq> 0 then loads (body req) else Inr (JObj []))"

text \<open>The head block, shared by the dense path of both receivers.\<close>

definition apply_head ::
  "(robot \<Rightarrow> int \<Rightarrow> int \<Rightarrow> int \<Rightarrow> unit run) \<Rightarrow> pylib \<Rightarrow> robot \<Rightarrow> json \<Rightarrow> unit run" where
  "apply_head set_pwm L R head =
     (case head of
        JObj h \<Rightarrow>
          then_do
            (case map_of h ''p1'' of
               None \<Rightarrow> (Inr (), [])
             | Some v \<Rightarrow> bind_run (lift (degrees_to_pwm_us L v)) (\<lambda>us. set_pwm R 1 us 80))
            (case map_of h ''p2'' of
               None \<Rightarrow> (Inr (), [])
             | Some v \<Rightarrow> bind_run (lift (degrees_to_pwm_us L v)) (\<lambda>us. set_pwm R 2 us 80))
      | _ \<Rightarrow> (Inr (), []))"

text \<open>The loop over \<open>enumerate(degrees)\<close>, with the given \<open>set_bus_servo\<close>.\<close>

definition apply_degrees ::
  "(robot \<Rightarrow> int \<Rightarrow> int \<Rightarrow> int \<Rightarrow> unit run) \<Rightarrow> pylib \<Rightarrow> robot \<Rightarrow> json list \<Rightarrow> unit run" where
  "apply_degrees set_bus L R degrees =
     for_each
       (\<lambda>(i, deg). bind_run (lift (degrees_to_pulse L deg))
                     (\<lambda>pulse. set_bus R (int i + 1) pulse 80))
       (enumerate 0 degrees)"

text \<open>The \<open>try\<close> block of \<open>ServoHandler.do_POST\<close> up to the debug output; it yields \<open>degrees\<close>.\<close>

definition post_command :: "pylib \<Rightarrow> robot \<Rightarrow> request \<Rightarrow> json list run" where
  "post_command L R req =
     bind_run (lift (read_msg L req)) (\<lambda>msg.
     bind_run (lift (dict_get msg ''kind'' JNull)) (\<lambda>kind.
       if kind \<noteq> JStr ''humanoid16''
       then (Inl (ValueError ''Expected kind: humanoid16''), [])
       else
     bind_run (lift (dict_get msg ''degrees'' (JArr []))) (\<lambda>degrees.
       case degrees of
         JArr ds \<Rightarrow>
           if length ds \<noteq> 16
           then (Inl (ValueError ''degrees must be array of 16 values''), [])
           else
             bind_run (apply_degrees set_bus_servo L R ds) (\<lambda>_.
             bind_run (lift (dict_get msg ''head'' JNull)) (\<lambda>head.
             bind_run (apply_head set_pwm_servo L R head) (\<lambda>_.
               (Inr ds, []))))
       | _ \<Rightarrow> (Inl (ValueError ''degrees must be array of 16 values''), []))))"

text \<open>\<open>int(round(d))\<close> in the debug output: \<open>round\<close> rejects a string.\<close>

fun round_of :: "json \<Rightarrow> exn + int" where
  "round_of (JNum r) = Inr (py_round r)"
| "round_of (JBool b) = Inr (if b then 1 else 0)"
| "round_of _ = Inl TypeError"

fun debug_sample :: "json list \<Rightarrow> exn + int list" where
  "debug_sample [] = Inr []"
| "debug_sample (d # ds) =
     (case round_of d of
        Inl e \<Rightarrow> Inl e
      | Inr n \<Rightarrow> (case debug_sample ds of Inl e \<Rightarrow> Inl e | Inr ns \<Rightarrow> Inr (n # ns)))"

definition error_response :: "exn \<Rightarrow> response" where
  "error_response e =
     \<lparr>status = 400,
      headers = send_cors_headers @ [(''Content-Type'', ''application/json'')],
      error_body = Some e\<rparr>"

definition no_content :: response where
  "no_content = \<lparr>status = 204, headers = send_cors_headers, error_body = None\<rparr>"

definition not_found :: response where
  "not_found = \<lparr>status = 404, headers = send_cors_headers, error_body = None\<rparr>"

text \<open>
  \<open>ServoHandler.do_POST\<close>. The class attribute \<open>last_log_time\<close> is passed in and returned;
  \<open>now\<close> is \<open>time.time()\<close>.
\<close>

definition do_POST ::
  "pylib \<Rightarrow> robot \<Rightarrow> real \<Rightarrow> real \<Rightarrow> request \<Rightarrow> response \<times> event list \<times> real" where
  "do_POST L R last_log_time now req =
     (if path req \<noteq> ''/servo'' then (not_found, [], last_log_time)
      else
        (case post_command L R req of
           (Inl e, t) \<Rightarrow> (error_response e, t @ [Logged e], last_log_time)
         | (Inr degrees, t) \<Rightarrow>
             if now - last_log_time > 1
             then (case debug_sample (take 4 degrees) of
                     Inl e \<Rightarrow> (error_response e, t @ [Logged e], now)
                   | Inr sample \<Rightarrow> (no_content, t, now))
             else (no_content, t, last_log_time)))"

text \<open>\<open>server.serve_forever()\<close> on the requests that arrive, each with its clock reading.\<close>

fun serve ::
  "pylib \<Rightarrow> robot \<Rightarrow> real \<Rightarrow> (real \<times> request) list \<Rightarrow> response list \<times> event list" where
  "serve L R last_log_time [] = ([], [])"
| "serve L R last_log_time ((now, req) # rest) =
     (case do_POST L R last_log_time now req of
        (resp, t, last_log_time') \<Rightarrow>
          (case serve L R last_log_time' rest of
             (resps, t') \<Rightarrow> (resp # resps, t @ t')))"

text \<open>
  \<open>main\<close>: the startup reset, the server, and the signal handler when a signal ends it.
\<close>

definition main ::
  "bool \<Rightarrow> pylib \<Rightarrow> robot \<Rightarrow> (real \<times> request) list \<Rightarrow> bool \<Rightarrow> response list \<times> event list" where
  "main no_reset L R requests signalled =
     (let startup = (if \<not> no_reset \<and> ROBOT_AVAILABLE R
                     then snd (reset_to_neutral R 1000) else []);
          (resps, served) = serve L R 0 requests;
          shutdown = (if signalled \<and> ROBOT_AVAILABLE R
                      then snd (reset_to_neutral R 500) else [])
      in (resps, startup @ served @ shutdown))"

subsection \<open>\<open>servo_receiver_ws.py\<close>\<close>

text \<open>The same two setters without the \<open>try\<close>: a driver error leaves the function.\<close>

definition ws_set_bus_servo :: "robot \<Rightarrow> int \<Rightarrow> int \<Rightarrow> int \<Rightarrow> unit run" where
  "ws_set_bus_servo R servo_id pulse time_ms =
     (let pulse = clamp pulse 0 1000; time_ms = max 0 time_ms
      in if \<not> ROBOT_AVAILABLE R then (Inr (), [])
         else if hasattr (controller R) set_bus_servo_pulse
         then invoke (controller R) (Call set_bus_servo_pulse servo_id pulse time_ms)
         else if hasattr (controller R) setBusServoPulse
         then invoke (controller R) (Call setBusServoPulse servo_id pulse time_ms)
         else (Inr (), []))"

definition ws_set_pwm_servo :: "robot \<Rightarrow> int \<Rightarrow> int \<Rightarrow> int \<Rightarrow> unit run" where
  "ws_set_pwm_servo R channel pulse_us time_ms =
     (let pulse_us = clamp pulse_us 500 2500; time_ms = max 0 time_ms
      in if \<not> ROBOT_AVAILABLE R then (Inr (), [])
         else if hasattr (controller R) set_pwm_servo_pulse
         then invoke (controller R) (Call set_pwm_servo_pulse channel pulse_us time_ms)
         else if hasattr (controller R) setPWMServoPulse
         then invoke (controller R) (Call setPWMServoPulse channel pulse_us time_ms)
         else (Inr (), []))"

text \<open>The branch \<open>msg_type == "servos"\<close>: pulses as sent, \<open>int(...)\<close> only.\<close>

definition sparse_servos :: "pylib \<Rightarrow> robot \<Rightarrow> json \<Rightarrow> unit run" where
  "sparse_servos L R servos =
     (case servos of
        JObj items \<Rightarrow>
          for_each
            (\<lambda>(sid, pulse).
               bind_run (lift (int_of L (JStr sid))) (\<lambda>i.
               bind_run (lift (int_of L pulse)) (\<lambda>p.
                 ws_set_bus_servo R i p 80)))
            items
      | _ \<Rightarrow> (Inr (), []))"

definition sparse_head :: "pylib \<Rightarrow> robot \<Rightarrow> json \<Rightarrow> unit run" where
  "sparse_head L R head =
     (case head of
        JObj h \<Rightarrow>
          then_do
            (case map_of h ''p1'' of
               None \<Rightarrow> (Inr (), [])
             | Some v \<Rightarrow> bind_run (lift (int_of L v)) (\<lambda>us. ws_set_pwm_servo R 1 us 80))
            (case map_of h ''p2'' of
               None \<Rightarrow> (Inr (), [])
             | Some v \<Rightarrow> bind_run (lift (int_of L v)) (\<lambda>us. ws_set_pwm_servo R 2 us 80))
      | _ \<Rightarrow> (Inr (), []))"

text \<open>
  One turn of the loop \<open>async for message in websocket\<close>: \<open>Inr ()\<close> when the loop goes on
  (also after \<open>continue\<close>), \<open>Inl e\<close> when an exception leaves it.
\<close>

definition handle_frame :: "pylib \<Rightarrow> robot \<Rightarrow> raw_body \<Rightarrow> unit run" where
  "handle_frame L R message =
     bind_run (lift (loads message)) (\<lambda>data.
     bind_run (lift (dict_get data ''type'' JNull)) (\<lambda>msg_type.
       if msg_type = JStr ''servos''
       then
         bind_run (lift (dict_get data ''servos'' JNull)) (\<lambda>servos.
         bind_run (sparse_servos L R servos) (\<lambda>_.
         bind_run (lift (dict_get data ''head'' JNull)) (\<lambda>head.
           sparse_head L R head)))
       else
         bind_run (lift (dict_get data ''kind'' JNull)) (\<lambda>kind.
           if kind \<noteq> JStr ''humanoid16'' then (Inr (), [])
           else
         bind_run (lift (dict_get data ''degrees'' JNull)) (\<lambda>degrees.
           case degrees of
             JArr ds \<Rightarrow>
               if length ds \<noteq> 16 then (Inr (), [])
               else
                 bind_run (apply_degrees ws_set_bus_servo L R ds) (\<lambda>_.
                 bind_run (lift (dict_get data ''head'' JNull)) (\<lambda>head.
                   apply_head ws_set_pwm_servo L R head))
           | _ \<Rightarrow> (Inr (), [])))))"

text \<open>
  \<open>handler\<close>: the frames of one connection, in order. The \<open>try\<close> encloses the whole loop, so
  the first exception is printed and the function returns. The source never calls
  \<open>websocket.send\<close>: \<open>ws_sent\<close> lists the replies, \<open>processed\<close> counts the frames taken
  from the connection.
\<close>

record ws_result =
  ws_trace :: "event list"
  ws_sent :: "json list"
  processed :: nat
  ended_by :: "exn option"

fun handler :: "pylib \<Rightarrow> robot \<Rightarrow> raw_body list \<Rightarrow> ws_result" where
  "handler L R [] = \<lparr>ws_trace = [], ws_sent = [], processed = 0, ended_by = None\<rparr>"
| "handler L R (message # rest) =
     (case handle_frame L R message of
        (Inl e, t) \<Rightarrow>
          \<lparr>ws_trace = t @ [Logged e], ws_sent = [], processed = 1, ended_by = Some e\<rparr>
      | (Inr _, t) \<Rightarrow>
          (let r = handler L R rest
           in r\<lparr>ws_trace := t @ ws_trace r, processed := Suc (processed r)\<rparr>))"

subsection \<open>\<open>servo_client.py\<close>\<close>

text \<open>
  \<open>send_ping\<close> sends \<open>ping_frame\<close> and waits five seconds for a reply (\<open>None\<close>: none came);
  it reports whether the reply is a pong.
\<close>

definition ping_frame :: json where
  "ping_frame = JObj [(''type'', JStr ''ping'')]"

definition send_ping :: "json option \<Rightarrow> exn + bool" where
  "send_ping reply =
     (case reply of
        None \<Rightarrow> Inl TimeoutError
      | Some data \<Rightarrow>
          bind_sum (dict_get data ''type'' JNull) (\<lambda>ty. Inr (ty = JStr ''pong'')))"

section \<open>\<open>tonypi_servo_server.py\<close>\<close>

datatype mode = unknown | HiwonderSDK_Board | hiwonder_Controller

record TonyPiController =
  mode :: mode
  board :: "driver option"
  ctl :: "driver option"

text \<open>\<open>TonyPiController.__init__\<close>: both attempts catch every exception; then it raises.\<close>

definition TonyPiController_init ::
  "driver import_result \<Rightarrow> driver import_result \<Rightarrow> exn + TonyPiController" where
  "TonyPiController_init HiwonderSDK_import hiwonder_Controller_import =
     (case HiwonderSDK_import of
        Imported b \<Rightarrow> Inr \<lparr>mode = HiwonderSDK_Board, board = Some b, ctl = None\<rparr>
      | _ \<Rightarrow>
          (case hiwonder_Controller_import of
             Imported c \<Rightarrow> Inr \<lparr>mode = hiwonder_Controller, board = None, ctl = Some c\<rparr>
           | _ \<Rightarrow> Inl (RuntimeError ''Could not import a TonyPi servo SDK.'')))"

definition TonyPiController_set_bus_servo ::
  "TonyPiController \<Rightarrow> int \<Rightarrow> int \<Rightarrow> int \<Rightarrow> unit run" where
  "TonyPiController_set_bus_servo C servo_id pos duration_ms =
     (let sid = servo_id; p = clamp pos 0 1000; t = max 0 duration_ms
      in if mode C = HiwonderSDK_Board then invoke (board C) (Call setBusServoPulse sid p t)
         else if mode C = hiwonder_Controller
         then invoke (ctl C) (Call set_bus_servo_pulse sid p t)
         else (Inl (RuntimeError ''Unsupported controller mode''), []))"

definition TonyPiController_set_pwm_servo ::
  "TonyPiController \<Rightarrow> int \<Rightarrow> int \<Rightarrow> int \<Rightarrow> unit run" where
  "TonyPiController_set_pwm_servo C channel us duration_ms =
     (let ch = channel; pulse = clamp us 500 2500; t = max 0 duration_ms
      in if mode C = HiwonderSDK_Board then invoke (board C) (Call setPWMServoPulse ch pulse t)
         else if mode C = hiwonder_Controller
         then invoke (ctl C) (Call set_pwm_servo_pulse ch pulse t)
         else (Inl (RuntimeError ''Unsupported controller mode''), []))"

fun floats_of :: "pylib \<Rightarrow> json list \<Rightarrow> exn + real list" where
  "floats_of L [] = Inr []"
| "floats_of L (x # xs) =
     bind_sum (float_of L x) (\<lambda>d. bind_sum (floats_of L xs) (\<lambda>ds. Inr (d # ds)))"

definition parse_payload :: "pylib \<Rightarrow> raw_body \<Rightarrow> exn + real list \<times> (real \<times> real) option" where
  "parse_payload L raw =
     bind_sum (case raw of NoBytes \<Rightarrow> Inr (JObj []) | _ \<Rightarrow> loads raw) (\<lambda>msg.
     bind_sum (dict_get msg ''kind'' JNull) (\<lambda>kind.
       if kind \<noteq> JStr ''humanoid16'' then Inl (ValueError ''wrong kind'')
       else
     bind_sum (dict_get msg ''degrees'' JNull) (\<lambda>deg.
       case deg of
         JArr ds \<Rightarrow>
           if length ds \<noteq> 16 then Inl (ValueError ''degrees must be length 16'')
           else
             bind_sum (floats_of L ds) (\<lambda>degrees.
             bind_sum (dict_get msg ''head'' JNull) (\<lambda>head.
               case head of
                 JObj h \<Rightarrow>
                   (case (map_of h ''p1'', map_of h ''p2'') of
                      (Some v1, Some v2) \<Rightarrow>
                        bind_sum (float_of L v1) (\<lambda>p1.
                        bind_sum (float_of L v2) (\<lambda>p2. Inr (degrees, Some (p1, p2))))
                    | _ \<Rightarrow> Inr (degrees, None))
               | _ \<Rightarrow> Inr (degrees, None)))
       | _ \<Rightarrow> Inl (ValueError ''degrees must be length 16''))))"

text \<open>
  The attributes \<open>handler_factory\<close> assigns to a \<open>Handler\<close>. The class body only annotates
  them, so a \<open>Handler\<close> on which they are not assigned yet (\<open>None\<close> below) has none of them.
\<close>

record handler_attrs =
  h_controller :: TonyPiController
  move_ms :: int
  last_at :: real
  min_interval_s :: real

text \<open>The \<open>try\<close> block of \<open>Handler.do_POST\<close>.\<close>

definition post_try :: "pylib \<Rightarrow> handler_attrs \<Rightarrow> request \<Rightarrow> unit run" where
  "post_try L self req =
     bind_run (lift (case content_length req of
                       None \<Rightarrow> Inr 0
                     | Some s \<Rightarrow> (case str_to_int L s of
                                    None \<Rightarrow> Inl (ValueError ''invalid literal for int()'')
                                  | Some n \<Rightarrow> Inr n))) (\<lambda>n.
     bind_run (lift (parse_payload L (if n > 0 then body req else Json (JObj [])))) (\<lambda>(degrees, head).
     bind_run
       (for_each
          (\<lambda>(i, d). TonyPiController_set_bus_servo (h_controller self) (int i)
                      (deg_to_bus_pos d) (move_ms self))
          (enumerate 1 degrees)) (\<lambda>_.
       case head of
         None \<Rightarrow> (Inr (), [])
       | Some (p1, p2) \<Rightarrow>
           then_do
             (TonyPiController_set_pwm_servo (h_controller self) 1 (deg_to_pwm_us p1) (move_ms self))
             (TonyPiController_set_pwm_servo (h_controller self) 2 (deg_to_pwm_us p2)
                (move_ms self)))))"

text \<open>
  \<open>Handler.do_POST\<close> at clock reading \<open>now\<close>. It returns the handler's attributes after the
  call, the response (or the exception that leaves the method), and the trace.
\<close>

definition Handler_do_POST ::
  "pylib \<Rightarrow> handler_attrs option \<Rightarrow> real \<Rightarrow> request \<Rightarrow>
     handler_attrs option \<times> (exn + response) \<times> event list" where
  "Handler_do_POST L self now req =
     (if path req \<noteq> ''/servo'' then (self, Inr not_found, [])
      else
        (case self of
           None \<Rightarrow> (None, Inl AttributeError, [])
         | Some h \<Rightarrow>
             if now - last_at h < min_interval_s h then (Some h, Inr no_content, [])
             else
               (let h' = h\<lparr>last_at := now\<rparr>
                in case post_try L h' req of
                     (Inl e, t) \<Rightarrow> (Some h', Inr (error_response e), t)
                   | (Inr _, t) \<Rightarrow> (Some h', Inr no_content, t))))"

record args =
  arg_move_ms :: int
  arg_max_fps :: real

text \<open>
  \<open>handler_factory\<close>, called by the server once per request. \<open>Handler(*_a, **_kw)\<close> runs the
  constructor of \<open>socketserver.BaseRequestHandler\<close>, which handles the request
  (\<open>setup(); handle(); finish()\<close>) before it returns; the four assignments follow.
\<close>

definition factory_attrs :: "args \<Rightarrow> TonyPiController \<Rightarrow> handler_attrs" where
  "factory_attrs a ctrl =
     \<lparr>h_controller = ctrl, move_ms = arg_move_ms a, last_at = 0,
      min_interval_s = 1 / max 1 (arg_max_fps a)\<rparr>"

definition handler_factory ::
  "pylib \<Rightarrow> args \<Rightarrow> TonyPiController \<Rightarrow> real \<Rightarrow> request \<Rightarrow>
     handler_attrs option \<times> (exn + response) \<times> event list" where
  "handler_factory L a ctrl now req =
     (case Handler_do_POST L None now req of
        (_, Inl e, t) \<Rightarrow> (None, Inl e, t)
      | (_, Inr resp, t) \<Rightarrow> (Some (factory_attrs a ctrl), Inr resp, t))"

fun tonypi_serve ::
  "pylib \<Rightarrow> args \<Rightarrow> TonyPiController \<Rightarrow> (real \<times> request) list \<Rightarrow>
     ((exn + response) \<times> event list) list" where
  "tonypi_serve L a ctrl [] = []"
| "tonypi_serve L a ctrl ((now, req) # rest) =
     (case handler_factory L a ctrl now req of
        (_, r, t) \<Rightarrow> (r, t) # tonypi_serve L a ctrl rest)"

text \<open>\<open>main\<close> of the server: \<open>Inl e\<close> when the process dies before it listens.\<close>

definition tonypi_main ::
  "pylib \<Rightarrow> driver import_result \<Rightarrow> driver import_result \<Rightarrow> args \<Rightarrow>
     (real \<times> request) list \<Rightarrow> exn + ((exn + response) \<times> event list) list" where
  "tonypi_main L HiwonderSDK_import hiwonder_Controller_import a requests =
     (case TonyPiController_init HiwonderSDK_import hiwonder_Controller_import of
        Inl e \<Rightarrow> Inl e
      | Inr ctrl \<Rightarrow> Inr (tonypi_serve L a ctrl requests))"

section \<open>Ranges and sample inputs\<close>

text \<open>
  The ranges of the driver's arguments: a bus pulse in 0..1000, a PWM width in 500..2500
  microseconds, a duration that is not negative.
\<close>

definition in_range :: "hw_call \<Rightarrow> bool" where
  "in_range c =
     (case c of Call m i v t \<Rightarrow>
        (if m = set_bus_servo_pulse \<or> m = setBusServoPulse
         then 0 \<le> v \<and> v \<le> 1000 else 500 \<le> v \<and> v \<le> 2500) \<and> 0 \<le> t)"

text \<open>Every driver call of a trace satisfies \<open>Q\<close>.\<close>

definition all_calls :: "(hw_call \<Rightarrow> bool) \<Rightarrow> event list \<Rightarrow> bool" where
  "all_calls Q t = list_all Q (hw_calls t)"

text \<open>
  Sample inputs. \<open>dec\<close> reads a string of decimal digits; \<open>lib\<close> is a library that reads
  such strings of at most 15 digits (every such number is a double) and nothing else, which is
  a part of what \<open>int\<close> and \<open>float\<close> accept.
\<close>

definition digit_val :: "char \<Rightarrow> int option" where
  "digit_val c =
     (let n = int (of_char c :: nat) in if 48 \<le> n \<and> n \<le> 57 then Some (n - 48) else None)"

fun dec_from :: "int \<Rightarrow> string \<Rightarrow> int option" where
  "dec_from acc [] = Some acc"
| "dec_from acc (c # cs) =
     (case digit_val c of None \<Rightarrow> None | Some d \<Rightarrow> dec_from (10 * acc + d) cs)"

definition dec :: "string \<Rightarrow> int option" where
  "dec s = (if s = [] \<or> 15 < length s then None else dec_from 0 s)"

definition lib :: pylib where
  "lib = \<lparr>str_to_float = (\<lambda>s. map_option of_int (dec s)), str_to_int = dec\<rparr>"

definition Controller_driver :: driver where
  "Controller_driver =
     \<lparr>attrs = {set_bus_servo_pulse, set_pwm_servo_pulse}, raises = (\<lambda>_. False)\<rparr>"

definition Board_driver :: driver where
  "Board_driver = \<lparr>attrs = {setBusServoPulse, setPWMServoPulse}, raises = (\<lambda>_. False)\<rparr>"

text \<open>A driver whose bus servo 1 does not answer.\<close>

definition faulty_driver :: driver where
  "faulty_driver =
     \<lparr>attrs = {set_bus_servo_pulse, set_pwm_servo_pulse},
      raises = (\<lambda>c. case c of Call m i v t \<Rightarrow> m = set_bus_servo_pulse \<and> i = 1)\<rparr>"

definition with_driver :: "driver \<Rightarrow> robot" where
  "with_driver d = \<lparr>ROBOT_AVAILABLE = True, controller = Some d\<rparr>"

definition dense90 :: json where
  "dense90 = JObj [(''kind'', JStr ''humanoid16''), (''degrees'', JArr (replicate 16 (JNum 90)))]"

definition sparse_over :: json where
  "sparse_over = JObj [(''type'', JStr ''servos''), (''servos'', JObj [(''3'', JNum 5000)])]"

definition servo_request :: "json \<Rightarrow> request" where
  "servo_request j = \<lparr>path = ''/servo'', content_length = Some ''100'', body = Json j\<rparr>"

text \<open>
  The neutral pose as driver calls: sixteen bus servos at pulse 500, then the two head
  channels at 1500 microseconds, all with duration \<open>t\<close>. \<open>bus_method\<close> and \<open>pwm_method\<close> are
  the driver methods that \<open>hasattr\<close> selects.
\<close>

definition bus_method :: "driver \<Rightarrow> drv_method" where
  "bus_method d = (if set_bus_servo_pulse \<in> attrs d then set_bus_servo_pulse else setBusServoPulse)"

definition pwm_method :: "driver \<Rightarrow> drv_method" where
  "pwm_method d = (if set_pwm_servo_pulse \<in> attrs d then set_pwm_servo_pulse else setPWMServoPulse)"

definition neutral_calls :: "drv_method \<Rightarrow> drv_method \<Rightarrow> int \<Rightarrow> hw_call list" where
  "neutral_calls bm pm t =
     map (\<lambda>servo_id. Call bm servo_id 500 t) [1, 2, 3, 4, 5, 6, 7, 8, 9, 10, 11, 12, 13, 14, 15, 16]
     @ [Call pm 1 1500 t, Call pm 2 1500 t]"

definition board_controller :: TonyPiController where
  "board_controller = \<lparr>mode = HiwonderSDK_Board, board = Some Board_driver, ctl = None\<rparr>"

definition sample_args :: args where
  "sample_args = \<lparr>arg_move_ms = 80, arg_max_fps = 10\<rparr>"

text \<open>
  A dense command as the specification has it: an object whose \<open>kind\<close> is \<open>humanoid16\<close> and
  whose \<open>degrees\<close> is a list of exactly 16 entries. \<open>invalid_dense\<close> holds of a body that is not
  such a command (or not JSON at all); \<open>sparse_tagged\<close> of a frame that carries the sparse
  form's discriminator.
\<close>

fun well_formed_dense :: "json \<Rightarrow> bool" where
  "well_formed_dense (JObj kvs) =
     (map_of kvs ''kind'' = Some (JStr ''humanoid16'')
      \<and> (case map_of kvs ''degrees'' of Some (JArr ds) \<Rightarrow> length ds = 16 | _ \<Rightarrow> False))"
| "well_formed_dense _ = False"

fun invalid_dense :: "raw_body \<Rightarrow> bool" where
  "invalid_dense (Json m) = (\<not> well_formed_dense m)"
| "invalid_dense _ = True"

fun sparse_tagged :: "raw_body \<Rightarrow> bool" where
  "sparse_tagged (Json (JObj kvs)) = (map_of kvs ''type'' = Some (JStr ''servos''))"
| "sparse_tagged _ = False"

definition wrong_kind :: json where
  "wrong_kind = JObj [(''kind'', JStr ''other''), (''degrees'', JArr (replicate 16 (JNum 90)))]"

text \<open>Sixteen entries, the third and all later ones \<open>null\<close>.\<close>

definition partial_items :: "(string \<times> json) list" where
  "partial_items =
     [(''kind'', JStr ''humanoid16''),
      (''degrees'', JArr ([JNum 90, JNum 90] @ replicate 14 JNull))]"

definition faulty_controller :: TonyPiController where
  "faulty_controller = \<lparr>mode = hiwonder_Controller, board = None, ctl = Some faulty_driver\<rparr>"

text \<open>The two float operations of the bus conversions, on a clamped angle \<open>c\<close>.\<close>

definition scaled :: "real \<Rightarrow> real" where
  "scaled c = double_round (double_round (c / 180) * 1000)"

text \<open>A driver call with these arguments, whatever the method.\<close>

definition handed :: "int \<Rightarrow> int \<Rightarrow> int \<Rightarrow> hw_call \<Rightarrow> bool" where
  "handed i v t c = (case c of Call m i' v' t' \<Rightarrow> i' = i \<and> v' = v \<and> t' = t)"







section \<open>Properties\<close>

subsection \<open>Rounding and clamping\<close>

lemma py_round_of_int: "py_round (of_int n) = n"
  by (simp add: py_round_def)

lemma py_round_mono: "x \<le> y \<Longrightarrow> py_round x \<le> py_round y"
proof -
  assume le: "x \<le> y"
  have fl: "\<lfloor>x\<rfloor> \<le> \<lfloor>y\<rfloor>" using le by (rule floor_mono)
  have up: "py_round x \<le> \<lfloor>x\<rfloor> + 1" by (simp add: py_round_def Let_def)
  have lo: "\<lfloor>y\<rfloor> \<le> py_round y" by (simp add: py_round_def Let_def)
  show ?thesis
  proof (cases "\<lfloor>x\<rfloor> < \<lfloor>y\<rfloor>")
    case True
    then show ?thesis using up lo by linarith
  next
    case False
    then have eq: "\<lfloor>x\<rfloor> = \<lfloor>y\<rfloor>" using fl by simp
    then show ?thesis using le by (auto simp: py_round_def Let_def)
  qed
qed

lemma py_round_range: "of_int a \<le> x \<Longrightarrow> x \<le> of_int b \<Longrightarrow> a \<le> py_round x \<and> py_round x \<le> b"
  using py_round_mono [of "of_int a" x] py_round_mono [of x "of_int b"]
  by (simp add: py_round_of_int)

lemma clamp_range: "lo \<le> hi \<Longrightarrow> lo \<le> clamp v lo hi \<and> clamp v lo hi \<le> hi"
  by (simp add: clamp_def)

lemma clamp_mono: "v \<le> w \<Longrightarrow> clamp v lo hi \<le> clamp w lo hi"
  by (auto simp: clamp_def max_def min_def)

lemma clamp_idem: "lo \<le> hi \<Longrightarrow> clamp (clamp v lo hi) lo hi = clamp v lo hi"
  by (auto simp: clamp_def max_def min_def)

subsection \<open>Rounding to doubles\<close>

lemma binade_bounds: "0 < x \<Longrightarrow> 2 powi binade x \<le> x \<and> x < 2 powi (binade x + 1)"
proof (induction x rule: binade.induct)
  case (1 x)
  show ?case
  proof (cases "2 \<le> x")
    case True
    then have b: "binade x = binade (x / 2) + 1" using "1.prems" by (subst binade.simps) simp
    have "2 powi binade (x / 2) \<le> x / 2 \<and> x / 2 < 2 powi (binade (x / 2) + 1)"
      using "1.IH"(1) "1.prems" True by simp
    then show ?thesis unfolding b by (simp add: power_int_add)
  next
    case False
    show ?thesis
    proof (cases "x < 1")
      case True
      then have b: "binade x = binade (2 * x) - 1" using "1.prems" False by (subst binade.simps) simp
      have "2 powi binade (2 * x) \<le> 2 * x \<and> 2 * x < 2 powi (binade (2 * x) + 1)"
        using "1.IH"(2) "1.prems" False True by simp
      then show ?thesis unfolding b by (simp add: power_int_add power_int_diff)
    next
      case 3: False
      then have "binade x = 0" using "1.prems" False by (subst binade.simps) simp
      then show ?thesis using False 3 by simp
    qed
  qed
qed


lemma pow2_add: "(2::real) powi a * 2 powi b = 2 powi (a + b)"
  by (simp add: power_int_add)

lemma pow2_less_cancel: "(2::real) powi a < 2 powi b \<Longrightarrow> a < b"
proof (rule ccontr)
  assume lt: "(2::real) powi a < 2 powi b" and "\<not> a < b"
  then have "b \<le> a" by simp
  then have "(2::real) powi b \<le> 2 powi a" by (intro power_int_increasing) simp_all
  then show False using lt by simp
qed

lemma py_round_0: "py_round 0 = 0"
  by (simp add: py_round_def)

lemma binade_mono: "0 < x \<Longrightarrow> x \<le> y \<Longrightarrow> binade x \<le> binade y"
proof -
  assume x: "0 < x" and le: "x \<le> y"
  have "2 powi binade x \<le> x" using binade_bounds [OF x] by simp
  moreover have "y < 2 powi (binade y + 1)" using binade_bounds [of y] x le by simp
  ultimately have "(2::real) powi binade x < 2 powi (binade y + 1)" using le by linarith
  then have "binade x < binade y + 1" by (rule pow2_less_cancel)
  then show ?thesis by simp
qed

lemma ulp_pos: "0 < ulp x"
  by (simp add: ulp_def)

lemma double_round_minus: "double_round (- x) = - double_round x"
  by (simp add: double_round_def ulp_def sgn_minus)

lemma double_round_0: "double_round 0 = 0"
  by (simp add: double_round_def)

lemma double_round_nonneg: "0 \<le> x \<Longrightarrow> 0 \<le> double_round x"
proof -
  assume x: "0 \<le> x"
  have "0 \<le> \<bar>x\<bar> / ulp x" using ulp_pos [of x] by simp
  then have "py_round 0 \<le> py_round (\<bar>x\<bar> / ulp x)" by (rule py_round_mono)
  then have "0 \<le> py_round (\<bar>x\<bar> / ulp x)" by (simp add: py_round_0)
  then show ?thesis using x ulp_pos [of x] by (simp add: double_round_def sgn_if)
qed

lemma double_round_pos: "0 < x \<Longrightarrow> double_round x = ulp x * of_int (py_round (x / ulp x))"
  by (simp add: double_round_def)

lemma double_round_upper:
  assumes "0 < x"
  shows "double_round x \<le> 2 powi (max (binade x) (-1022) + 1)"
proof -
  let ?e = "max (binade x) (-1022)"
  have u: "ulp x = 2 powi (?e - 52)" using assms by (simp add: ulp_def)
  have "x < 2 powi (binade x + 1)" using binade_bounds [OF assms] by simp
  also have "\<dots> \<le> 2 powi (?e + 1)" by (intro power_int_increasing) simp_all
  finally have "x < 2 powi (?e + 1)" .
  then have "x / ulp x < 2 powi (?e + 1) / 2 powi (?e - 52)"
    unfolding u by (simp add: divide_strict_right_mono)
  also have "2 powi (?e + 1) / 2 powi (?e - 52) = (2::real) powi 53"
    by (simp add: power_int_diff [symmetric])
  finally have "x / ulp x \<le> of_int (2 ^ 53)" by simp
  then have "py_round (x / ulp x) \<le> py_round (of_int (2 ^ 53))" by (rule py_round_mono)
  then have "py_round (x / ulp x) \<le> 2 ^ 53" by (simp only: py_round_of_int)
  then have "real_of_int (py_round (x / ulp x)) \<le> 2 powi 53" by simp
  then have "ulp x * of_int (py_round (x / ulp x)) \<le> 2 powi (?e - 52) * 2 powi 53"
    unfolding u by (intro mult_left_mono) simp_all
  also have "2 powi (?e - 52) * 2 powi 53 = (2::real) powi (?e + 1)"
    using pow2_add [of "?e - 52" 53] by (simp add: add.commute)
  finally show ?thesis using assms by (simp add: double_round_pos)
qed

lemma double_round_lower:
  assumes "0 < x" and "- 1022 \<le> binade x"
  shows "2 powi binade x \<le> double_round x"
proof -
  have u: "ulp x = 2 powi (binade x - 52)" using assms by (simp add: ulp_def max_def)
  have "2 powi binade x \<le> x" using binade_bounds [OF assms(1)] by simp
  then have "2 powi binade x / 2 powi (binade x - 52) \<le> x / ulp x"
    unfolding u by (simp add: divide_right_mono)
  moreover have "2 powi binade x / 2 powi (binade x - 52) = (2::real) powi 52"
    by (simp add: power_int_diff [symmetric])
  ultimately have "of_int (2 ^ 52) \<le> x / ulp x" by simp
  then have "py_round (of_int (2 ^ 52)) \<le> py_round (x / ulp x)" by (rule py_round_mono)
  then have "2 ^ 52 \<le> py_round (x / ulp x)" by (simp only: py_round_of_int)
  then have "2 powi 52 \<le> real_of_int (py_round (x / ulp x))" by simp
  then have "2 powi (binade x - 52) * 2 powi 52 \<le> ulp x * of_int (py_round (x / ulp x))"
    unfolding u by (intro mult_left_mono) simp_all
  moreover have "2 powi (binade x - 52) * 2 powi 52 = (2::real) powi binade x"
    using pow2_add [of "binade x - 52" 52] by simp
  ultimately show ?thesis using assms(1) by (simp add: double_round_pos)
qed

lemma double_round_mono_pos:
  assumes "0 < x" and "x \<le> y"
  shows "double_round x \<le> double_round y"
proof -
  have y: "0 < y" using assms by simp
  let ?ex = "max (binade x) (-1022)" and ?ey = "max (binade y) (-1022)"
  have le: "?ex \<le> ?ey" using binade_mono [OF assms] by simp
  show ?thesis
  proof (cases "?ex = ?ey")
    case True
    then have u: "ulp x = ulp y" using assms y by (simp add: ulp_def)
    have "x / ulp y \<le> y / ulp y" using assms(2) ulp_pos [of y] by (simp add: divide_right_mono)
    then have "py_round (x / ulp y) \<le> py_round (y / ulp y)" by (rule py_round_mono)
    then have "ulp y * of_int (py_round (x / ulp y)) \<le> ulp y * of_int (py_round (y / ulp y))"
      using ulp_pos [of y] by (intro mult_left_mono) simp_all
    then show ?thesis using assms(1) y u by (simp add: double_round_pos)
  next
    case False
    then have lt: "?ex < ?ey" using le by linarith
    then have nb: "- 1022 \<le> binade y" and ey: "?ey = binade y" by linarith+
    have "double_round x \<le> 2 powi (?ex + 1)" by (rule double_round_upper [OF assms(1)])
    also have "\<dots> \<le> 2 powi binade y"
    proof (intro power_int_increasing)
      show "?ex + 1 \<le> binade y" using lt ey by linarith
    qed simp
    also have "\<dots> \<le> double_round y" by (rule double_round_lower [OF y nb])
    finally show ?thesis .
  qed
qed

lemma double_round_mono: "x \<le> y \<Longrightarrow> double_round x \<le> double_round y"
proof -
  assume le: "x \<le> y"
  consider "0 < x" | "x \<le> 0" "0 \<le> y" | "y < 0" by linarith
  then show ?thesis
  proof cases
    case 1
    then show ?thesis using le by (rule double_round_mono_pos)
  next
    case 2
    have "0 \<le> double_round (- x)" using 2(1) by (intro double_round_nonneg) simp
    then have "double_round x \<le> 0" by (simp add: double_round_minus)
    then show ?thesis using double_round_nonneg [OF 2(2)] by linarith
  next
    case 3
    then have "double_round (- y) \<le> double_round (- x)" using le by (intro double_round_mono_pos) simp_all
    then show ?thesis by (simp add: double_round_minus)
  qed
qed

text \<open>A number with a significand below \<open>2^53\<close> and an exponent in range is a double.\<close>

lemma double_round_exact:
  assumes "\<bar>m\<bar> < 2 ^ 53" and "- 1074 \<le> k"
  shows "double_round (of_int m * 2 powi k) = of_int m * 2 powi k"
proof (cases "m = 0")
  case True
  then show ?thesis by (simp add: double_round_0)
next
  case False
  let ?x = "real_of_int m * 2 powi k"
  have ax: "\<bar>?x\<bar> = of_int \<bar>m\<bar> * 2 powi k" by (simp add: abs_mult)
  have pos: "0 < \<bar>?x\<bar>" using False by simp
  let ?e = "max (binade \<bar>?x\<bar>) (-1022)"
  have "2 powi binade \<bar>?x\<bar> \<le> \<bar>?x\<bar>" using binade_bounds [OF pos] by simp
  also have "\<bar>?x\<bar> < 2 powi 53 * 2 powi k"
  proof -
    have "real_of_int \<bar>m\<bar> < of_int (2 ^ 53)" using assms(1) by (simp only: of_int_less_iff)
    then have "real_of_int \<bar>m\<bar> < 2 powi 53" by simp
    then show ?thesis unfolding ax by (intro mult_strict_right_mono) simp_all
  qed
  also have "\<dots> = (2::real) powi (53 + k)" by (rule pow2_add)
  finally have "binade \<bar>?x\<bar> < 53 + k" by (rule pow2_less_cancel)
  then have ek: "0 \<le> k - (?e - 52)" using assms(2) by simp
  have u: "ulp ?x = 2 powi (?e - 52)" by (simp add: ulp_def)
  have "\<bar>?x\<bar> / ulp ?x = of_int \<bar>m\<bar> * 2 powi (k - (?e - 52))"
    unfolding u ax by (simp add: power_int_diff)
  also have "\<dots> = of_int \<bar>m\<bar> * 2 ^ nat (k - (?e - 52))"
    using ek by (simp add: power_int_nonneg_exp)
  also have "\<dots> = of_int (\<bar>m\<bar> * 2 ^ nat (k - (?e - 52)))" by simp
  finally have q: "\<bar>?x\<bar> / ulp ?x = of_int (\<bar>m\<bar> * 2 ^ nat (k - (?e - 52)))" .
  have "ulp ?x * of_int (py_round (\<bar>?x\<bar> / ulp ?x)) = ulp ?x * (\<bar>?x\<bar> / ulp ?x)"
    by (simp only: q py_round_of_int)
  also have "\<dots> = \<bar>?x\<bar>" using ulp_pos [of ?x] by simp
  finally have "double_round ?x = sgn ?x * \<bar>?x\<bar>" by (simp only: double_round_def)
  then show ?thesis by (simp add: sgn_mult_abs)
qed

lemma double_round_int: "\<bar>n\<bar> < 2 ^ 53 \<Longrightarrow> double_round (of_int n) = of_int n"
  using double_round_exact [of n 0] by simp

lemma small_in_range: "\<bar>r\<bar> < 2 ^ 53 \<Longrightarrow> \<not> double_overflow \<le> \<bar>r\<bar>"
proof -
  assume "\<bar>r\<bar> < 2 ^ 53"
  moreover have "(2::real) ^ 53 \<le> 2 ^ 970" by (intro power_increasing) simp_all
  moreover have "(2::real) ^ 970 * 2 \<le> 2 ^ 1024"
  proof -
    have "(2::real) ^ 970 * 2 = 2 ^ 971" by simp
    also have "\<dots> \<le> 2 ^ 1024" by (intro power_increasing) simp_all
    finally show ?thesis .
  qed
  ultimately show ?thesis unfolding double_overflow_def by linarith
qed

lemma float_of_int_small:
  "\<bar>n\<bar> < 2 ^ 53 \<Longrightarrow> float_of L (JNum (of_int n)) = Inr (of_int n)"
proof -
  assume n: "\<bar>n\<bar> < 2 ^ 53"
  then have "\<bar>real_of_int n\<bar> < of_int (2 ^ 53)" by (simp only: of_int_abs [symmetric] of_int_less_iff)
  then have "\<bar>real_of_int n\<bar> < 2 ^ 53" by simp
  then show ?thesis using small_in_range double_round_int [OF n] by simp
qed

lemma double_round_half: "double_round (1 / 2) = 1 / 2"
  using double_round_exact [of 1 "- 1"] by simp

lemma deg_to_bus_pos_90: "deg_to_bus_pos 90 = 500"
  using double_round_int [of 90] double_round_int [of 500]
  by (simp add: deg_to_bus_pos_def clamp_def double_round_half py_round_def)

lemma float_of_90: "float_of L (JNum 90) = Inr 90"
  using float_of_int_small [of 90 L] by simp

lemma degrees_to_pulse_num:
  "\<not> double_overflow \<le> \<bar>d\<bar> \<Longrightarrow> degrees_to_pulse L (JNum d) = Inr (deg_to_bus_pos d)"
  by (simp add: degrees_to_pulse_def deg_to_bus_pos_def)

lemma degrees_to_pulse_90: "degrees_to_pulse L (JNum 90) = Inr 500"
  using degrees_to_pulse_num [of 90 L] small_in_range [of 90] deg_to_bus_pos_90 by simp

lemma replicate_16: "replicate 16 x = [x, x, x, x, x, x, x, x, x, x, x, x, x, x, x, x]"
  by (simp add: numeral_eq_Suc)

subsection \<open>The conversions\<close>

lemma scaled_mono: "c \<le> c' \<Longrightarrow> scaled c \<le> scaled c'"
  unfolding scaled_def
  by (intro double_round_mono mult_right_mono divide_right_mono) simp_all

lemma scaled_values: "scaled 0 = 0" "scaled 90 = 500" "scaled 180 = 1000"
  using double_round_int [of 500] double_round_int [of 1000] double_round_int [of 1]
  by (simp_all add: scaled_def double_round_0 double_round_half)

lemma deg_to_bus_pos_scaled: "deg_to_bus_pos d = py_round (scaled (clamp (double_round d) 0 180))"
  by (simp add: deg_to_bus_pos_def scaled_def)

lemma deg_to_bus_pos_range: "0 \<le> deg_to_bus_pos d \<and> deg_to_bus_pos d \<le> 1000"
proof -
  let ?c = "clamp (double_round d) 0 180"
  have c: "0 \<le> ?c \<and> ?c \<le> 180" using clamp_range [of 0 180 "double_round d"] by simp
  have "scaled 0 \<le> scaled ?c" and "scaled ?c \<le> scaled 180"
    using c by (simp_all add: scaled_mono)
  then have "of_int 0 \<le> scaled ?c \<and> scaled ?c \<le> of_int 1000" by (simp add: scaled_values)
  then show ?thesis unfolding deg_to_bus_pos_scaled using py_round_range by blast
qed


lemma deg_to_bus_pos_mono: "d \<le> d' \<Longrightarrow> deg_to_bus_pos d \<le> deg_to_bus_pos d'"
  unfolding deg_to_bus_pos_scaled
  by (intro py_round_mono scaled_mono clamp_mono double_round_mono)

lemma deg_to_bus_pos_values:
  "deg_to_bus_pos 0 = 0 \<and> deg_to_bus_pos 90 = 500 \<and> deg_to_bus_pos 180 = 1000"
  using double_round_int [of 90] double_round_int [of 180]
  by (simp add: deg_to_bus_pos_scaled double_round_0 clamp_def scaled_values py_round_0
        py_round_of_int [of 500, simplified] py_round_of_int [of 1000, simplified])

lemma clamp_double_round_gen:
  assumes "double_round lo = lo" and "double_round hi = hi" and "lo \<le> hi"
  shows "clamp (double_round (clamp d lo hi)) lo hi = clamp (double_round d) lo hi"
proof -
  consider "d \<le> lo" | "hi \<le> d" | "lo < d" "d < hi" by linarith
  then show ?thesis
  proof cases
    case 1
    then have "double_round d \<le> lo" using double_round_mono [of d lo] assms(1) by simp
    then have r: "clamp (double_round d) lo hi = lo"
      using assms(3) by (auto simp: clamp_def max_def min_def)
    have "clamp d lo hi = lo" using 1 assms(3) by (auto simp: clamp_def max_def min_def)
    then have "clamp (double_round (clamp d lo hi)) lo hi = clamp lo lo hi"
      by (simp add: assms(1))
    also have "\<dots> = lo" using assms(3) by (auto simp: clamp_def max_def min_def)
    finally show ?thesis using r by simp
  next
    case 2
    then have "hi \<le> double_round d" using double_round_mono [of hi d] assms(2) by simp
    then have r: "clamp (double_round d) lo hi = hi"
      using assms(3) by (auto simp: clamp_def max_def min_def)
    have "clamp d lo hi = hi" using 2 assms(3) by (auto simp: clamp_def max_def min_def)
    then have "clamp (double_round (clamp d lo hi)) lo hi = clamp hi lo hi"
      by (simp add: assms(2))
    also have "\<dots> = hi" using assms(3) by (auto simp: clamp_def max_def min_def)
    finally show ?thesis using r by simp
  next
    case 3
    then have "clamp d lo hi = d" by (auto simp: clamp_def max_def min_def)
    then show ?thesis by simp
  qed
qed

lemma clamp_double_round:
  "clamp (double_round (clamp d 0 180)) 0 180 = clamp (double_round d) 0 180"
  using double_round_int [of 180]
  by (intro clamp_double_round_gen) (simp_all add: double_round_0)

lemma clamp_double_round_client:
  "clamp (double_round (clamp d 10 170)) 10 170 = clamp (double_round d) 10 170"
  using double_round_int [of 10] double_round_int [of 170]
  by (intro clamp_double_round_gen) simp_all

lemma deg_to_bus_pos_clamp: "deg_to_bus_pos d = deg_to_bus_pos (clamp d 0 180)"
  by (simp add: deg_to_bus_pos_scaled clamp_double_round)

lemma degrees_to_pulse_clamp:
  assumes "\<bar>d\<bar> < double_overflow"
  shows "degrees_to_pulse L (JNum d) = degrees_to_pulse L (JNum (clamp d 0 180))"
proof -
  have "\<bar>clamp d 0 180\<bar> < 2 ^ 53" by (simp add: clamp_def max_def min_def)
  then have "\<not> double_overflow \<le> \<bar>clamp d 0 180\<bar>" by (rule small_in_range)
  then show ?thesis
    using assms deg_to_bus_pos_clamp [of d]
    by (simp add: degrees_to_pulse_num)
qed

text \<open>The client: bounds on the product by doubles on either side.\<close>

lemma client_scaled:
  "client_degrees_to_pulse d = \<lfloor>scaled (clamp (double_round d) 10 170)\<rfloor>"
proof -
  have "scaled 0 \<le> scaled (clamp (double_round d) 10 170)"
    by (intro scaled_mono) (simp add: clamp_def)
  then have "0 \<le> scaled (clamp (double_round d) 10 170)" by (simp add: scaled_values)
  then show ?thesis
    by (simp add: client_degrees_to_pulse_def Let_def py_int_def scaled_def clamp_def)
qed

lemma scaled_lower:
  assumes "of_int m * 2 powi k \<le> c / 180" and "\<bar>m\<bar> < 2 ^ 53" and "- 1074 \<le> k"
    and "of_int n \<le> of_int m * 2 powi k * (1000::real)" and "\<bar>n\<bar> < 2 ^ 53"
  shows "of_int n \<le> scaled c"
proof -
  have "of_int m * 2 powi k \<le> double_round (c / 180)"
    using double_round_mono [OF assms(1)] double_round_exact [OF assms(2,3)] by simp
  then have "of_int m * 2 powi k * 1000 \<le> double_round (c / 180) * 1000" by simp
  then have "of_int n \<le> double_round (c / 180) * 1000" using assms(4) by linarith
  then show ?thesis
    unfolding scaled_def using double_round_mono double_round_int [OF assms(5)] by metis
qed

lemma scaled_upper:
  assumes "c / 180 \<le> of_int m * 2 powi k" and "\<bar>m\<bar> < 2 ^ 53" and "- 1074 \<le> k"
    and "of_int m * 2 powi k * (1000::real) \<le> of_int n * 2 powi j" and "\<bar>n\<bar> < 2 ^ 53"
    and "- 1074 \<le> j"
  shows "scaled c \<le> of_int n * 2 powi j"
proof -
  have "double_round (c / 180) \<le> of_int m * 2 powi k"
    using double_round_mono [OF assms(1)] double_round_exact [OF assms(2,3)] by simp
  then have "double_round (c / 180) * 1000 \<le> of_int m * 2 powi k * 1000" by simp
  then have "double_round (c / 180) * 1000 \<le> of_int n * 2 powi j" using assms(4) by linarith
  then show ?thesis
    unfolding scaled_def using double_round_mono double_round_exact [OF assms(5,6)] by metis
qed

lemma scaled_10: "55 \<le> scaled 10 \<and> scaled 10 < 56"
proof -
  have "of_int 55 \<le> scaled 10"
    by (rule scaled_lower [of 3606 "- 16"]) simp_all
  moreover have "scaled 10 \<le> of_int 223 * 2 powi (- 2)"
    by (rule scaled_upper [of _ 3641 "- 16"]) simp_all
  ultimately show ?thesis by simp
qed

lemma scaled_170: "944 \<le> scaled 170 \<and> scaled 170 < 945"
proof -
  have "of_int 944 \<le> scaled 170"
    by (rule scaled_lower [of 61867 "- 16"]) simp_all
  moreover have "scaled 170 \<le> of_int 1889 * 2 powi (- 1)"
    by (rule scaled_upper [of _ 61897 "- 16"]) simp_all
  ultimately show ?thesis by simp
qed

lemma client_range: "55 \<le> client_degrees_to_pulse d \<and> client_degrees_to_pulse d \<le> 944"
proof -
  let ?c = "clamp (double_round d) 10 170"
  have "scaled 10 \<le> scaled ?c" and "scaled ?c \<le> scaled 170"
    by (simp_all add: scaled_mono clamp_def)
  then have "of_int 55 \<le> scaled ?c" and "scaled ?c < of_int 945"
    using scaled_10 scaled_170 by simp_all
  then show ?thesis unfolding client_scaled by (simp add: le_floor_iff floor_less_iff)
qed

lemma client_mono: "d \<le> d' \<Longrightarrow> client_degrees_to_pulse d \<le> client_degrees_to_pulse d'"
  unfolding client_scaled
  by (intro floor_mono scaled_mono clamp_mono double_round_mono)

lemma client_values:
  "client_degrees_to_pulse 0 = 55 \<and> client_degrees_to_pulse 90 = 500
   \<and> client_degrees_to_pulse 180 = 944"
proof -
  have "\<lfloor>scaled 10\<rfloor> = 55" using scaled_10 by (simp add: floor_eq_iff)
  moreover have "\<lfloor>scaled 170\<rfloor> = 944" using scaled_170 by (simp add: floor_eq_iff)
  ultimately show ?thesis
    using double_round_int [of 90] double_round_int [of 180]
    by (simp add: client_scaled scaled_values double_round_0 clamp_def)
qed

lemma client_clamp: "client_degrees_to_pulse d = client_degrees_to_pulse (clamp d 10 170)"
  by (simp add: client_scaled clamp_double_round_client)

subsection \<open>Traces\<close>

lemma hw_calls_simps:
  "hw_calls [] = []" "hw_calls (Hw c # t) = c # hw_calls t" "hw_calls (Logged e # t) = hw_calls t"
  "hw_calls (t @ u) = hw_calls t @ hw_calls u"
  by (simp_all add: hw_calls_def)

lemma calls_simps:
  "all_calls Q []" "all_calls Q (Hw c # t) = (Q c \<and> all_calls Q t)"
  "all_calls Q (Logged e # t) = all_calls Q t"
  "all_calls Q (t @ u) = (all_calls Q t \<and> all_calls Q u)"
  by (simp_all add: all_calls_def hw_calls_simps)


lemma bind_run_simps:
  "bind_run (Inl e, t) f = (Inl e, t)"
  "bind_run (Inr x, t) f = (fst (f x), t @ snd (f x))"
  "bind_run (lift (Inl e)) f = (Inl e, [])"
  "bind_run (lift (Inr x)) f = f x"
  by (simp_all add: bind_run_def lift_def split: prod.splits)

lemma calls_bind_run:
  assumes "all_calls Q (snd a)" and "\<And>x. all_calls Q (snd (f x))"
  shows "all_calls Q (snd (bind_run a f))"
proof (cases a)
  case (Pair r t)
  show ?thesis
  proof (cases r)
    case (Inl e)
    then show ?thesis using Pair assms(1) by (simp add: bind_run_simps)
  next
    case (Inr x)
    then show ?thesis using Pair assms by (simp add: bind_run_simps calls_simps)
  qed
qed

lemma calls_lift: "all_calls Q (snd (lift r))"
  by (simp add: lift_def calls_simps)

lemma calls_then_do:
  "all_calls Q (snd a) \<Longrightarrow> all_calls Q (snd b) \<Longrightarrow> all_calls Q (snd (then_do a b))"
  by (simp add: then_do_def calls_bind_run)

lemma calls_for_each: "(\<And>x. all_calls Q (snd (f x))) \<Longrightarrow> all_calls Q (snd (for_each f xs))"
  by (induction xs) (simp_all add: calls_simps calls_then_do)

lemma calls_try_log: "all_calls Q (snd a) \<Longrightarrow> all_calls Q (snd (try_log a))"
  by (cases a) (auto simp: try_log_def calls_simps split: sum.splits)

lemma calls_apply_degrees:
  "(\<And>i p t. all_calls Q (snd (sb R i p t))) \<Longrightarrow> all_calls Q (snd (apply_degrees sb L R ds))"
  unfolding apply_degrees_def
  by (rule calls_for_each) (auto intro!: calls_bind_run calls_lift)

lemma calls_apply_head:
  "(\<And>i p t. all_calls Q (snd (sp R i p t))) \<Longrightarrow> all_calls Q (snd (apply_head sp L R head))"
  unfolding apply_head_def
  by (auto intro!: calls_then_do calls_bind_run calls_lift simp: calls_simps
        split: json.splits option.splits)

text \<open>The HTTP receiver, for any property that its two setters keep.\<close>

lemma calls_reset_to_neutral:
  assumes "\<And>i p t. all_calls Q (snd (set_bus_servo R i p t))"
    and "\<And>i p t. all_calls Q (snd (set_pwm_servo R i p t))"
  shows "all_calls Q (snd (reset_to_neutral R t))"
  unfolding reset_to_neutral_def
  by (intro calls_then_do calls_for_each assms)

lemma calls_post_command:
  assumes "\<And>i p t. all_calls Q (snd (set_bus_servo R i p t))"
    and "\<And>i p t. all_calls Q (snd (set_pwm_servo R i p t))"
  shows "all_calls Q (snd (post_command L R req))"
  unfolding post_command_def
  by (auto intro!: calls_bind_run calls_lift calls_apply_degrees calls_apply_head assms
        simp: calls_simps split: json.splits)

lemma calls_do_POST:
  assumes "\<And>i p t. all_calls Q (snd (set_bus_servo R i p t))"
    and "\<And>i p t. all_calls Q (snd (set_pwm_servo R i p t))"
  shows "all_calls Q (fst (snd (do_POST L R llt now req)))"
  using calls_post_command [of Q R L req, OF assms]
  by (auto simp: do_POST_def calls_simps split: prod.splits sum.splits)

lemma calls_serve:
  assumes "\<And>i p t. all_calls Q (snd (set_bus_servo R i p t))"
    and "\<And>i p t. all_calls Q (snd (set_pwm_servo R i p t))"
  shows "all_calls Q (snd (serve L R llt reqs))"
proof (induction reqs arbitrary: llt)
  case Nil
  show ?case by (simp add: calls_simps)
next
  case (Cons r reqs)
  obtain now req where r: "r = (now, req)" by (cases r)
  obtain resp t llt' where d: "do_POST L R llt now req = (resp, t, llt')"
    by (cases "do_POST L R llt now req") auto
  obtain resps t' where s: "serve L R llt' reqs = (resps, t')" by (cases "serve L R llt' reqs")
  have "all_calls Q t" using calls_do_POST [of Q R L llt now req, OF assms] d by simp
  moreover have "all_calls Q t'" using Cons [of llt'] s by simp
  ultimately show ?case using r d s by (simp add: calls_simps)
qed

lemma calls_main:
  assumes "\<And>i p t. all_calls Q (snd (set_bus_servo R i p t))"
    and "\<And>i p t. all_calls Q (snd (set_pwm_servo R i p t))"
  shows "all_calls Q (snd (main no_reset L R reqs sig))"
proof -
  obtain resps t where s: "serve L R 0 reqs = (resps, t)" by (cases "serve L R 0 reqs")
  have "all_calls Q t" using calls_serve [of Q R L 0 reqs, OF assms] s by simp
  then show ?thesis using s calls_reset_to_neutral [of Q R, OF assms]
    by (simp add: main_def Let_def calls_simps)
qed

text \<open>The streaming receiver.\<close>

lemma calls_sparse_servos:
  assumes "\<And>i p t. all_calls Q (snd (ws_set_bus_servo R i p t))"
  shows "all_calls Q (snd (sparse_servos L R servos))"
  unfolding sparse_servos_def
  by (auto intro!: calls_for_each calls_bind_run calls_lift assms
        simp: calls_simps split: json.splits)

lemma calls_sparse_head:
  assumes "\<And>i p t. all_calls Q (snd (ws_set_pwm_servo R i p t))"
  shows "all_calls Q (snd (sparse_head L R head))"
  unfolding sparse_head_def
  by (auto intro!: calls_then_do calls_bind_run calls_lift assms
        simp: calls_simps split: json.splits option.splits)

lemma calls_handle_frame:
  assumes "\<And>i p t. all_calls Q (snd (ws_set_bus_servo R i p t))"
    and "\<And>i p t. all_calls Q (snd (ws_set_pwm_servo R i p t))"
  shows "all_calls Q (snd (handle_frame L R m))"
  unfolding handle_frame_def
  by (auto intro!: calls_bind_run calls_lift calls_apply_degrees calls_apply_head
        calls_sparse_servos calls_sparse_head assms simp: calls_simps split: json.splits)

lemma calls_handler:
  assumes "\<And>i p t. all_calls Q (snd (ws_set_bus_servo R i p t))"
    and "\<And>i p t. all_calls Q (snd (ws_set_pwm_servo R i p t))"
  shows "all_calls Q (ws_trace (handler L R frames))"
proof (induction frames)
  case Nil
  show ?case by (simp add: calls_simps)
next
  case (Cons m frames)
  obtain r t where h: "handle_frame L R m = (r, t)" by (cases "handle_frame L R m")
  have "all_calls Q t" using calls_handle_frame [of Q R L m, OF assms] h by simp
  then show ?case using Cons h by (cases r) (simp_all add: calls_simps Let_def)
qed

text \<open>The rate-limited server.\<close>

lemma calls_post_try:
  assumes "\<And>i p t. all_calls Q (snd (TonyPiController_set_bus_servo (h_controller h) i p t))"
    and "\<And>i p t. all_calls Q (snd (TonyPiController_set_pwm_servo (h_controller h) i p t))"
  shows "all_calls Q (snd (post_try L h req))"
  unfolding post_try_def
  by (auto intro!: calls_bind_run calls_lift calls_for_each calls_then_do assms
        simp: calls_simps split: option.splits prod.splits)

lemma calls_Handler_do_POST:
  assumes "\<And>C i p t. all_calls Q (snd (TonyPiController_set_bus_servo C i p t))"
    and "\<And>C i p t. all_calls Q (snd (TonyPiController_set_pwm_servo C i p t))"
  shows "all_calls Q (snd (snd (Handler_do_POST L self now req)))"
proof (cases self)
  case None
  then show ?thesis by (simp add: Handler_do_POST_def calls_simps)
next
  case (Some h)
  obtain r t where p: "post_try L (h\<lparr>last_at := now\<rparr>) req = (r, t)"
    by (cases "post_try L (h\<lparr>last_at := now\<rparr>) req")
  have "all_calls Q t"
    using calls_post_try [of Q "h\<lparr>last_at := now\<rparr>" L req] assms p by simp
  then show ?thesis using Some p
    by (cases r) (simp_all add: Handler_do_POST_def Let_def calls_simps)
qed

text \<open>What the setters hand to the driver is clamped.\<close>

lemma bus_invoke_in_range:
  "m = set_bus_servo_pulse \<or> m = setBusServoPulse \<Longrightarrow>
   all_calls in_range (snd (invoke c (Call m i (clamp p 0 1000) (max 0 t))))"
  by (auto simp: invoke_def calls_simps in_range_def clamp_def split: option.splits)

lemma pwm_invoke_in_range:
  "m = set_pwm_servo_pulse \<or> m = setPWMServoPulse \<Longrightarrow>
   all_calls in_range (snd (invoke c (Call m i (clamp p 500 2500) (max 0 t))))"
  by (auto simp: invoke_def calls_simps in_range_def clamp_def split: option.splits)

lemma in_range_set_bus_servo: "all_calls in_range (snd (set_bus_servo R i p t))"
  by (simp add: set_bus_servo_def Let_def calls_simps calls_try_log bus_invoke_in_range)

lemma in_range_set_pwm_servo: "all_calls in_range (snd (set_pwm_servo R i p t))"
  by (simp add: set_pwm_servo_def Let_def calls_simps calls_try_log pwm_invoke_in_range)

lemma in_range_ws_set_bus_servo: "all_calls in_range (snd (ws_set_bus_servo R i p t))"
  by (simp add: ws_set_bus_servo_def Let_def calls_simps bus_invoke_in_range)

lemma in_range_ws_set_pwm_servo: "all_calls in_range (snd (ws_set_pwm_servo R i p t))"
  by (simp add: ws_set_pwm_servo_def Let_def calls_simps pwm_invoke_in_range)

lemma in_range_tonypi_set_bus_servo:
  "all_calls in_range (snd (TonyPiController_set_bus_servo C i p t))"
  by (simp add: TonyPiController_set_bus_servo_def Let_def calls_simps bus_invoke_in_range)

lemma in_range_tonypi_set_pwm_servo:
  "all_calls in_range (snd (TonyPiController_set_pwm_servo C i p t))"
  by (simp add: TonyPiController_set_pwm_servo_def Let_def calls_simps pwm_invoke_in_range)


lemma handed_invoke: "all_calls (handed i v t) (snd (invoke c (Call m i v t)))"
  by (auto simp: invoke_def calls_simps handed_def split: option.splits)

lemma handed_set_bus_servo:
  "all_calls (handed i (clamp p 0 1000) (max 0 t)) (snd (set_bus_servo R i p t))"
  by (simp add: set_bus_servo_def Let_def calls_simps calls_try_log handed_invoke)

lemma handed_set_pwm_servo:
  "all_calls (handed i (clamp p 500 2500) (max 0 t)) (snd (set_pwm_servo R i p t))"
  by (simp add: set_pwm_servo_def Let_def calls_simps calls_try_log handed_invoke)

lemma handed_ws_set_bus_servo:
  "all_calls (handed i (clamp p 0 1000) (max 0 t)) (snd (ws_set_bus_servo R i p t))"
  by (simp add: ws_set_bus_servo_def Let_def calls_simps handed_invoke)

lemma handed_ws_set_pwm_servo:
  "all_calls (handed i (clamp p 500 2500) (max 0 t)) (snd (ws_set_pwm_servo R i p t))"
  by (simp add: ws_set_pwm_servo_def Let_def calls_simps handed_invoke)

lemma handed_tonypi_set_bus_servo:
  "all_calls (handed i (clamp p 0 1000) (max 0 t)) (snd (TonyPiController_set_bus_servo C i p t))"
  by (simp add: TonyPiController_set_bus_servo_def Let_def calls_simps handed_invoke)

lemma handed_tonypi_set_pwm_servo:
  "all_calls (handed i (clamp p 500 2500) (max 0 t))
     (snd (TonyPiController_set_pwm_servo C i p t))"
  by (simp add: TonyPiController_set_pwm_servo_def Let_def calls_simps handed_invoke)

text \<open>Rule sets that evaluate the sample runs.\<close>

lemmas run_simps = bind_run_simps lift_def then_do_def try_log_def hasattr_def invoke_def
  apply_degrees_def apply_head_def replicate_16 hw_calls_simps degrees_to_pulse_90
  deg_to_bus_pos_90 clamp_def bind_sum_def

lemmas sample_simps = dense90_def servo_request_def with_driver_def Controller_driver_def
  Board_driver_def faulty_driver_def lib_def dec_def digit_val_def sample_args_def
  board_controller_def faulty_controller_def factory_attrs_def

text \<open>
  C1 (as amended). For a numeric input that \<open>float\<close> takes (below the overflow bound of the
  doubles), the bus-pulse conversions of the three bridges (\<open>degrees_to_pulse\<close> in both
  receivers, \<open>deg_to_bus_pos\<close> in the server) clamp its double to 0..180 and return
  \<open>round(d / 180.0 * 1000)\<close> as the doubles compute it: the result lies in 0..1000, does not
  decrease when the input grows, is 0, 500 and 1000 at 0, 90 and 180, and an input outside
  0..180 gives what the nearest bound gives. The client's \<open>degrees_to_pulse\<close> clamps to
  10..170 and truncates the same double product: its result lies in 55..944, does not
  decrease, is 500 at 90, and an input outside 10..170 gives what the nearest of 10 and 170
  gives.
\<close>

theorem C1_bus_pulse_codec:
  "(\<bar>d\<bar> < double_overflow \<longrightarrow>
      degrees_to_pulse L (JNum d) = Inr (deg_to_bus_pos d)
      \<and> degrees_to_pulse L (JNum d) = degrees_to_pulse L (JNum (clamp d 0 180)))
   \<and> deg_to_bus_pos d
       = py_round (double_round (double_round (clamp (double_round d) 0 180 / 180) * 1000))
   \<and> 0 \<le> deg_to_bus_pos d \<and> deg_to_bus_pos d \<le> 1000
   \<and> (d \<le> d' \<longrightarrow> deg_to_bus_pos d \<le> deg_to_bus_pos d')
   \<and> deg_to_bus_pos 0 = 0 \<and> deg_to_bus_pos 90 = 500 \<and> deg_to_bus_pos 180 = 1000
   \<and> deg_to_bus_pos d = deg_to_bus_pos (clamp d 0 180)
   \<and> client_degrees_to_pulse d
       = py_int (double_round (double_round (clamp (double_round d) 10 170 / 180) * 1000))
   \<and> 55 \<le> client_degrees_to_pulse d \<and> client_degrees_to_pulse d \<le> 944
   \<and> (d \<le> d' \<longrightarrow> client_degrees_to_pulse d \<le> client_degrees_to_pulse d')
   \<and> client_degrees_to_pulse 90 = 500
   \<and> client_degrees_to_pulse d = client_degrees_to_pulse (clamp d 10 170)"
proof -
  have a: "\<bar>d\<bar> < double_overflow \<longrightarrow>
      degrees_to_pulse L (JNum d) = Inr (deg_to_bus_pos d)
      \<and> degrees_to_pulse L (JNum d) = degrees_to_pulse L (JNum (clamp d 0 180))"
    using degrees_to_pulse_num [of d L] degrees_to_pulse_clamp [of d L] by simp
  have b: "deg_to_bus_pos d
       = py_round (double_round (double_round (clamp (double_round d) 0 180 / 180) * 1000))"
    by (simp add: deg_to_bus_pos_def)
  have c: "client_degrees_to_pulse d
       = py_int (double_round (double_round (clamp (double_round d) 10 170 / 180) * 1000))"
    by (simp add: client_degrees_to_pulse_def clamp_def)
  show ?thesis
    using a b c deg_to_bus_pos_range [of d] deg_to_bus_pos_mono [of d d'] deg_to_bus_pos_values
      deg_to_bus_pos_clamp [of d] client_range [of d] client_mono [of d d'] client_values
      client_clamp [of d]
    by blast
qed

theorem C1_bus_pulse_codec_witness:
  "\<bar>- 10 :: real\<bar> < double_overflow \<and> (- 10 :: real) \<le> 200
   \<and> degrees_to_pulse lib (JNum (- 10)) = Inr (deg_to_bus_pos (- 10))
   \<and> deg_to_bus_pos (- 10) \<le> deg_to_bus_pos 200
   \<and> client_degrees_to_pulse (- 10) \<le> client_degrees_to_pulse 200"
proof -
  have h: "\<bar>- 10 :: real\<bar> < double_overflow" using small_in_range [of "- 10"] by simp
  show ?thesis using h C1_bus_pulse_codec [of "- 10" lib 200] by simp
qed

text \<open>
  C1 as stated fails for the client's conversion: at 0 degrees it returns 55, not
  \<open>round(0 / 180 * 1000) = 0\<close>, and at 180 degrees 944, not 1000.
\<close>

theorem C1_client_counterexample:
  "client_degrees_to_pulse 0 = 55
   \<and> client_degrees_to_pulse 0 \<noteq> py_round (clamp 0 0 180 / 180 * 1000)
   \<and> client_degrees_to_pulse 180 = 944"
  using client_values by (simp add: py_round_def clamp_def)

text \<open>
  C9. Each backend setter clamps what it hands to the driver: whatever pulse and duration it
  is called with, the driver call carries the servo id, the pulse clamped to 0..1000 (the
  microseconds clamped to 500..2500 for a PWM channel) and the duration raised to at least 0.
  This holds for the setters of all three bridges, so every driver call of any run is in
  range, whatever command produced it: on a connection of the streaming receiver (dense and
  sparse frames alike), in a whole run of the HTTP receiver, and in a request of the
  rate-limited server.
\<close>

theorem C9_driver_values_clamped:
  "list_all in_range (hw_calls (snd (set_bus_servo R i p t)))
   \<and> list_all (handed i (clamp p 0 1000) (max 0 t)) (hw_calls (snd (set_bus_servo R i p t)))
   \<and> list_all in_range (hw_calls (snd (set_pwm_servo R i p t)))
   \<and> list_all (handed i (clamp p 500 2500) (max 0 t)) (hw_calls (snd (set_pwm_servo R i p t)))
   \<and> list_all in_range (hw_calls (snd (ws_set_bus_servo R i p t)))
   \<and> list_all (handed i (clamp p 0 1000) (max 0 t)) (hw_calls (snd (ws_set_bus_servo R i p t)))
   \<and> list_all in_range (hw_calls (snd (ws_set_pwm_servo R i p t)))
   \<and> list_all (handed i (clamp p 500 2500) (max 0 t))
        (hw_calls (snd (ws_set_pwm_servo R i p t)))
   \<and> list_all in_range (hw_calls (snd (TonyPiController_set_bus_servo C i p t)))
   \<and> list_all (handed i (clamp p 0 1000) (max 0 t))
        (hw_calls (snd (TonyPiController_set_bus_servo C i p t)))
   \<and> list_all in_range (hw_calls (snd (TonyPiController_set_pwm_servo C i p t)))
   \<and> list_all (handed i (clamp p 500 2500) (max 0 t))
        (hw_calls (snd (TonyPiController_set_pwm_servo C i p t)))
   \<and> list_all in_range (hw_calls (ws_trace (handler L R frames)))
   \<and> list_all in_range (hw_calls (snd (main no_reset L R requests signalled)))
   \<and> list_all in_range (hw_calls (snd (snd (Handler_do_POST L self now req))))"
proof -
  have "all_calls in_range (ws_trace (handler L R frames))"
    by (rule calls_handler) (rule in_range_ws_set_bus_servo in_range_ws_set_pwm_servo)+
  moreover have "all_calls in_range (snd (main no_reset L R requests signalled))"
    by (rule calls_main) (rule in_range_set_bus_servo in_range_set_pwm_servo)+
  moreover have "all_calls in_range (snd (snd (Handler_do_POST L self now req)))"
    by (rule calls_Handler_do_POST)
      (rule in_range_tonypi_set_bus_servo in_range_tonypi_set_pwm_servo)+
  ultimately show ?thesis
    using in_range_set_bus_servo [of R i p t] in_range_set_pwm_servo [of R i p t]
      in_range_ws_set_bus_servo [of R i p t] in_range_ws_set_pwm_servo [of R i p t]
      in_range_tonypi_set_bus_servo [of C i p t] in_range_tonypi_set_pwm_servo [of C i p t]
      handed_set_bus_servo [of i p t R] handed_set_pwm_servo [of i p t R]
      handed_ws_set_bus_servo [of i p t R] handed_ws_set_pwm_servo [of i p t R]
      handed_tonypi_set_bus_servo [of i p t C] handed_tonypi_set_pwm_servo [of i p t C]
    by (simp add: all_calls_def)
qed

theorem C9_driver_values_clamped_witness:
  "hw_calls (snd (set_bus_servo (with_driver Controller_driver) 3 5000 (- 7)))
     = [Call set_bus_servo_pulse 3 1000 0]
   \<and> list_all in_range (hw_calls (snd (set_bus_servo (with_driver Controller_driver) 3 5000 (- 7))))
   \<and> hw_calls (ws_trace (handler lib (with_driver Controller_driver) [Json sparse_over]))
     = [Call set_bus_servo_pulse 3 1000 80]
   \<and> list_all in_range
        (hw_calls (ws_trace (handler lib (with_driver Controller_driver) [Json sparse_over])))"
proof -
  have a: "hw_calls (snd (set_bus_servo (with_driver Controller_driver) 3 5000 (- 7)))
     = [Call set_bus_servo_pulse 3 1000 0]"
    by (simp add: set_bus_servo_def run_simps sample_simps)
  have b: "hw_calls (ws_trace (handler lib (with_driver Controller_driver) [Json sparse_over]))
          = [Call set_bus_servo_pulse 3 1000 80]"
    by code_simp
  show ?thesis
    using a b
      C9_driver_values_clamped [of "with_driver Controller_driver" 3 5000 "- 7" board_controller
        lib "[Json sparse_over]"]
    by blast
qed

subsection \<open>Startup and missing hardware\<close>

lemma upto_1_16: "[1..16] = [1, 2, 3, 4, 5, 6, 7, 8, 9, 10, 11, 12, 13, 14, 15, (16::int)]"
  by (simp add: upto_rec1)

lemma set_bus_servo_call:
  assumes "ROBOT_AVAILABLE R" and "controller R = Some d"
    and "set_bus_servo_pulse \<in> attrs d \<or> setBusServoPulse \<in> attrs d"
  shows "fst (set_bus_servo R i p t) = Inr ()"
    and "hw_calls (snd (set_bus_servo R i p t)) = [Call (bus_method d) i (clamp p 0 1000) (max 0 t)]"
  using assms
  by (auto simp: set_bus_servo_def Let_def hasattr_def invoke_def try_log_def bus_method_def
        hw_calls_simps)

lemma set_pwm_servo_call:
  assumes "ROBOT_AVAILABLE R" and "controller R = Some d"
    and "set_pwm_servo_pulse \<in> attrs d \<or> setPWMServoPulse \<in> attrs d"
  shows "fst (set_pwm_servo R i p t) = Inr ()"
    and "hw_calls (snd (set_pwm_servo R i p t)) = [Call (pwm_method d) i (clamp p 500 2500) (max 0 t)]"
  using assms
  by (auto simp: set_pwm_servo_def Let_def hasattr_def invoke_def try_log_def pwm_method_def
        hw_calls_simps)

lemma then_do_ok:
  "fst a = Inr () \<Longrightarrow> then_do a b = (fst b, snd a @ snd b)"
  by (cases a) (simp add: then_do_def bind_run_simps)

lemma for_each_ok:
  assumes "\<And>x. fst (f x) = Inr ()"
  shows "fst (for_each f xs) = Inr () \<and>
         hw_calls (snd (for_each f xs)) = concat (map (\<lambda>x. hw_calls (snd (f x))) xs)"
  by (induction xs) (simp_all add: then_do_ok assms hw_calls_simps)

lemma reset_to_neutral_calls:
  assumes "ROBOT_AVAILABLE R" and "controller R = Some d"
    and "set_bus_servo_pulse \<in> attrs d \<or> setBusServoPulse \<in> attrs d"
    and "set_pwm_servo_pulse \<in> attrs d \<or> setPWMServoPulse \<in> attrs d"
    and "0 \<le> t"
  shows "hw_calls (snd (reset_to_neutral R t)) = neutral_calls (bus_method d) (pwm_method d) t"
proof -
  let ?f = "\<lambda>servo_id. set_bus_servo R servo_id 500 t"
  have f: "\<And>x. fst (?f x) = Inr ()" using set_bus_servo_call(1) [OF assms(1-3)] by simp
  have loop: "fst (for_each ?f [1..16]) = Inr ()"
    "hw_calls (snd (for_each ?f [1..16])) = concat (map (\<lambda>x. hw_calls (snd (?f x))) [1..16])"
    using for_each_ok [of ?f "[1..16]", OF f] by simp_all
  have p1: "fst (set_pwm_servo R 1 1500 t) = Inr ()"
    using set_pwm_servo_call(1) [OF assms(1,2,4)] by simp
  have "snd (reset_to_neutral R t) =
          snd (for_each ?f [1..16]) @ snd (set_pwm_servo R 1 1500 t) @ snd (set_pwm_servo R 2 1500 t)"
    by (simp add: reset_to_neutral_def then_do_ok loop(1) p1)
  then have "hw_calls (snd (reset_to_neutral R t)) =
          concat (map (\<lambda>x. hw_calls (snd (?f x))) [1..16])
          @ hw_calls (snd (set_pwm_servo R 1 1500 t)) @ hw_calls (snd (set_pwm_servo R 2 1500 t))"
    by (simp only: hw_calls_simps loop(2))
  also have "\<dots> = neutral_calls (bus_method d) (pwm_method d) t"
    using assms(5)
    by (simp add: set_bus_servo_call(2) [OF assms(1-3)]
          set_pwm_servo_call(2) [OF assms(1,2,4)] neutral_calls_def upto_1_16 clamp_def)
  finally show ?thesis .
qed



text \<open>
  C5. In \<open>servo_reciever.py\<close>, when a driver is loaded that offers a bus-servo and a PWM
  method and the reset is not skipped, the driver calls of the whole run begin with exactly
  the neutral pose: sixteen bus-servo calls with pulse 500 for ids 1..16 and two PWM calls
  with 1500 microseconds for channels 1 and 2, each with duration 1000 ms. The calls of the
  served requests come only after them (and a shutdown signal adds the same pose with 500 ms).
\<close>

theorem C5_startup_reset:
  assumes "ROBOT_AVAILABLE R" and "\<not> no_reset" and "controller R = Some d"
    and "set_bus_servo_pulse \<in> attrs d \<or> setBusServoPulse \<in> attrs d"
    and "set_pwm_servo_pulse \<in> attrs d \<or> setPWMServoPulse \<in> attrs d"
  shows "hw_calls (snd (main no_reset L R requests signalled)) =
           neutral_calls (bus_method d) (pwm_method d) 1000
           @ hw_calls (snd (serve L R 0 requests))
           @ (if signalled then neutral_calls (bus_method d) (pwm_method d) 500 else [])"
proof -
  obtain resps t where s: "serve L R 0 requests = (resps, t)" by (cases "serve L R 0 requests")
  show ?thesis
    using assms(1,2) s
    by (simp add: main_def Let_def hw_calls_simps
          reset_to_neutral_calls [OF assms(1,3,4,5)])
qed

theorem C5_startup_reset_witness:
  "ROBOT_AVAILABLE (with_driver Controller_driver)
   \<and> controller (with_driver Controller_driver) = Some Controller_driver
   \<and> set_bus_servo_pulse \<in> attrs Controller_driver
   \<and> set_pwm_servo_pulse \<in> attrs Controller_driver
   \<and> hw_calls (snd (main False lib (with_driver Controller_driver)
                     [(1000, servo_request dense90)] False)) =
       neutral_calls set_bus_servo_pulse set_pwm_servo_pulse 1000
       @ hw_calls (snd (serve lib (with_driver Controller_driver) 0
                          [(1000, servo_request dense90)]))"
  using C5_startup_reset [of "with_driver Controller_driver" False Controller_driver lib
      "[(1000, servo_request dense90)]" False]
  by (simp add: with_driver_def Controller_driver_def bus_method_def pwm_method_def)



















subsection \<open>The rate limiter of the server\<close>

text \<open>
  C10. In \<open>Handler.do_POST\<close> of the rate-limited server, a POST to \<open>/servo\<close> that arrives less
  than \<open>min_interval_s\<close> after \<open>last_at\<close> is answered with \<open>204\<close> and the CORS headers, makes
  no driver call and leaves \<open>last_at\<close> as it was; the answer is the same whatever the
  Content-Length header and the body are, so the body is neither read nor validated. A
  command that is admitted and applied is answered with the very same response.
\<close>

theorem C10_rate_limited_drop:
  assumes "path req = ''/servo''" and "now - last_at h < min_interval_s h"
  shows "Handler_do_POST L (Some h) now req = (Some h, Inr no_content, [])
    \<and> status no_content = 204
    \<and> Handler_do_POST L (Some h) now (req\<lparr>content_length := c, body := b\<rparr>)
        = Handler_do_POST L (Some h) now req
    \<and> (path req' = ''/servo'' \<and> \<not> now' - last_at h' < min_interval_s h'
        \<and> fst (post_try L (h'\<lparr>last_at := now'\<rparr>) req') = Inr ()
       \<longrightarrow> fst (snd (Handler_do_POST L (Some h') now' req')) = Inr no_content)"
  using assms
  by (auto simp: Handler_do_POST_def Let_def no_content_def split: prod.splits sum.splits)

theorem C10_rate_limited_drop_witness:
  "path (servo_request dense90) = ''/servo''
   \<and> 1000.05 - last_at ((factory_attrs sample_args board_controller)\<lparr>last_at := 1000\<rparr>)
       < min_interval_s ((factory_attrs sample_args board_controller)\<lparr>last_at := 1000\<rparr>)
   \<and> \<not> 1000 - last_at (factory_attrs sample_args board_controller)
         < min_interval_s (factory_attrs sample_args board_controller)
   \<and> fst (post_try lib ((factory_attrs sample_args board_controller)\<lparr>last_at := 1000\<rparr>)
            (servo_request dense90)) = Inr ()
   \<and> Handler_do_POST lib
        (Some ((factory_attrs sample_args board_controller)\<lparr>last_at := 1000\<rparr>)) 1000.05
        (servo_request dense90)
      = (Some ((factory_attrs sample_args board_controller)\<lparr>last_at := 1000\<rparr>),
         Inr no_content, [])
   \<and> fst (snd (Handler_do_POST lib (Some (factory_attrs sample_args board_controller)) 1000
                  (servo_request dense90))) = Inr no_content"
proof -
  let ?h = "(factory_attrs sample_args board_controller)\<lparr>last_at := 1000\<rparr>"
  have p: "path (servo_request dense90) = ''/servo''" by (simp add: servo_request_def)
  have a: "1000.05 - last_at ?h < min_interval_s ?h"
    by (simp add: factory_attrs_def sample_args_def)
  have b: "\<not> 1000 - last_at (factory_attrs sample_args board_controller)
             < min_interval_s (factory_attrs sample_args board_controller)"
    by (simp add: factory_attrs_def sample_args_def)
  have c: "fst (post_try lib ?h (servo_request dense90)) = Inr ()"
    by (simp del: float_of.simps
          add: post_try_def parse_payload_def float_of_90 TonyPiController_set_bus_servo_def
            run_simps sample_simps)
  show ?thesis
    using p a b c
      C10_rate_limited_drop [where req = "servo_request dense90" and now = "1000.05"
        and h = ?h and req' = "servo_request dense90" and now' = 1000
        and h' = "factory_attrs sample_args board_controller" and L = lib]
    by blast
qed

subsection \<open>Rejected commands\<close>

lemma read_msg_body:
  "content_length req = Some s \<Longrightarrow> str_to_int L s = Some n \<Longrightarrow> 0 < n \<Longrightarrow>
   read_msg L req = loads (body req)"
  by (simp add: read_msg_def)

lemma post_command_invalid:
  assumes "invalid_dense (body req)" and "content_length req = Some s"
    and "str_to_int L s = Some n" and "0 < n"
  shows "\<exists>e. post_command L R req = (Inl e, [])"
proof (cases "body req")
  case (Json m)
  show ?thesis
  proof (cases m)
    case (JObj kvs)
    then show ?thesis using assms(1) Json
      by (auto simp: post_command_def read_msg_body [OF assms(2-4)] bind_run_simps
            split: option.splits json.splits)
  qed (simp_all add: post_command_def read_msg_body [OF assms(2-4)] Json bind_run_simps)
qed (simp_all add: post_command_def read_msg_body [OF assms(2-4)] bind_run_simps)

lemma parse_payload_invalid:
  assumes "invalid_dense raw"
  shows "\<exists>e. parse_payload L raw = Inl e"
proof (cases raw)
  case (Json m)
  show ?thesis
  proof (cases m)
    case (JObj kvs)
    then show ?thesis using assms Json
      by (auto simp: parse_payload_def bind_sum_def split: option.splits json.splits)
  qed (simp_all add: parse_payload_def Json bind_sum_def)
qed (simp_all add: parse_payload_def bind_sum_def)

lemma parse_payload_non_numeric:
  assumes "map_of kvs ''kind'' = Some (JStr ''humanoid16'')"
    and "map_of kvs ''degrees'' = Some (JArr ds)" and "length ds = 16"
    and "floats_of L ds = Inl e"
  shows "parse_payload L (Json (JObj kvs)) = Inl e"
  using assms by (simp add: parse_payload_def bind_sum_def)

lemma post_try_reject:
  assumes "content_length req = Some s" and "str_to_int L s = Some n" and "0 < n"
    and "parse_payload L (body req) = Inl e"
  shows "post_try L h req = (Inl e, [])"
  using assms by (simp add: post_try_def bind_run_simps)

lemma Handler_do_POST_reject:
  assumes "path req = ''/servo''" and "\<not> now - last_at h < min_interval_s h"
    and "content_length req = Some s" and "str_to_int L s = Some n" and "0 < n"
    and "parse_payload L (body req) = Inl e"
  shows "Handler_do_POST L (Some h) now req = (Some (h\<lparr>last_at := now\<rparr>), Inr (error_response e), [])"
  using assms(1,2) post_try_reject [OF assms(3-6), of "h\<lparr>last_at := now\<rparr>"]
  by (simp add: Handler_do_POST_def Let_def)

lemma handle_frame_invalid:
  assumes "invalid_dense raw" and "\<not> sparse_tagged raw"
  shows "snd (handle_frame L R raw) = []"
    and "(\<exists>kvs. raw = Json (JObj kvs)) \<longrightarrow> handle_frame L R raw = (Inr (), [])"
proof -
  have "snd (handle_frame L R raw) = [] \<and>
        ((\<exists>kvs. raw = Json (JObj kvs)) \<longrightarrow> handle_frame L R raw = (Inr (), []))"
  proof (cases raw)
    case (Json m)
    show ?thesis
    proof (cases m)
      case (JObj kvs)
      then show ?thesis using assms Json
        by (auto simp: handle_frame_def bind_run_simps split: option.splits json.splits)
    qed (simp_all add: handle_frame_def Json bind_run_simps)
  qed (simp_all add: handle_frame_def bind_run_simps)
  then show "snd (handle_frame L R raw) = []"
    and "(\<exists>kvs. raw = Json (JObj kvs)) \<longrightarrow> handle_frame L R raw = (Inr (), [])"
    by simp_all
qed

lemma handler_never_sends: "ws_sent (handler L R frames) = []"
proof (induction frames)
  case Nil
  show ?case by simp
next
  case (Cons m frames)
  obtain r t where h: "handle_frame L R m = (r, t)" by (cases "handle_frame L R m")
  show ?case using Cons h by (cases r) (simp_all add: Let_def)
qed

text \<open>
  C2 (as amended). A dense command that is not valid JSON, not an object, has a wrong
  discriminator, or whose degrees are not a list of exactly 16 makes no driver call in any
  bridge. Both HTTP bridges answer it with status 400 and the error as JSON body (the
  rate-limited server when the request is admitted). The streaming receiver sends nothing
  back: a frame with a wrong discriminator or a wrong count is skipped silently and the loop
  goes on. In the rate-limited server a list of 16 with an entry that \<open>float\<close> rejects is
  answered 400 as well, before any driver call.
\<close>

theorem C2_invalid_dense_rejected:
  assumes "invalid_dense (body req)" and "path req = ''/servo''"
    and "content_length req = Some s" and "str_to_int L s = Some n" and "0 < n"
    and "\<not> now - last_at h < min_interval_s h"
  shows "(\<exists>e. do_POST L R last_log_time now req = (error_response e, [Logged e], last_log_time))
    \<and> (\<exists>e. Handler_do_POST L (Some h) now req
             = (Some (h\<lparr>last_at := now\<rparr>), Inr (error_response e), []))
    \<and> status (error_response e') = 400 \<and> error_body (error_response e') = Some e'
    \<and> (\<not> sparse_tagged (body req) \<longrightarrow>
          snd (handle_frame L R' (body req)) = []
          \<and> ws_sent (handler L R' (body req # rest)) = []
          \<and> ((\<exists>kvs. body req = Json (JObj kvs)) \<longrightarrow> handle_frame L R' (body req) = (Inr (), [])))
    \<and> (map_of kvs ''kind'' = Some (JStr ''humanoid16'')
        \<and> map_of kvs ''degrees'' = Some (JArr ds) \<and> length ds = 16
        \<and> floats_of L ds = Inl e''
        \<longrightarrow> Handler_do_POST L (Some h) now (req\<lparr>body := Json (JObj kvs)\<rparr>)
             = (Some (h\<lparr>last_at := now\<rparr>), Inr (error_response e''), []))"
proof -
  obtain e1 where e1: "post_command L R req = (Inl e1, [])"
    using post_command_invalid [OF assms(1,3,4,5)] by blast
  have a: "do_POST L R last_log_time now req = (error_response e1, [Logged e1], last_log_time)"
    using assms(2) e1 by (simp add: do_POST_def)
  obtain e2 where e2: "parse_payload L (body req) = Inl e2"
    using parse_payload_invalid [OF assms(1)] by blast
  have b: "Handler_do_POST L (Some h) now req
             = (Some (h\<lparr>last_at := now\<rparr>), Inr (error_response e2), [])"
    by (rule Handler_do_POST_reject [OF assms(2,6,3,4,5) e2])
  have c: "status (error_response e') = 400 \<and> error_body (error_response e') = Some e'"
    by (simp add: error_response_def)
  have d: "\<not> sparse_tagged (body req) \<longrightarrow>
          snd (handle_frame L R' (body req)) = []
          \<and> ws_sent (handler L R' (body req # rest)) = []
          \<and> ((\<exists>kvs. body req = Json (JObj kvs)) \<longrightarrow> handle_frame L R' (body req) = (Inr (), []))"
    using handle_frame_invalid [OF assms(1)] handler_never_sends by blast
  have e: "map_of kvs ''kind'' = Some (JStr ''humanoid16'')
        \<and> map_of kvs ''degrees'' = Some (JArr ds) \<and> length ds = 16
        \<and> floats_of L ds = Inl e''
        \<longrightarrow> Handler_do_POST L (Some h) now (req\<lparr>body := Json (JObj kvs)\<rparr>)
             = (Some (h\<lparr>last_at := now\<rparr>), Inr (error_response e''), [])"
  proof
    assume h: "map_of kvs ''kind'' = Some (JStr ''humanoid16'')
        \<and> map_of kvs ''degrees'' = Some (JArr ds) \<and> length ds = 16
        \<and> floats_of L ds = Inl e''"
    have p: "parse_payload L (body (req\<lparr>body := Json (JObj kvs)\<rparr>)) = Inl e''"
      using h parse_payload_non_numeric [of kvs ds L e''] by simp
    show "Handler_do_POST L (Some h) now (req\<lparr>body := Json (JObj kvs)\<rparr>)
             = (Some (h\<lparr>last_at := now\<rparr>), Inr (error_response e''), [])"
      by (rule Handler_do_POST_reject [OF _ assms(6) _ assms(4,5) p])
        (simp_all add: assms(2,3))
  qed
  show ?thesis using a b c d e by blast
qed

theorem C2_invalid_dense_rejected_witness:
  "invalid_dense (body (servo_request wrong_kind))
   \<and> path (servo_request wrong_kind) = ''/servo''
   \<and> content_length (servo_request wrong_kind) = Some ''100''
   \<and> str_to_int lib ''100'' = Some 100 \<and> (0::int) < 100
   \<and> \<not> 1000 - last_at (factory_attrs sample_args board_controller)
         < min_interval_s (factory_attrs sample_args board_controller)
   \<and> \<not> sparse_tagged (body (servo_request wrong_kind))
   \<and> map_of partial_items ''kind'' = Some (JStr ''humanoid16'')
   \<and> map_of partial_items ''degrees'' = Some (JArr ([JNum 90, JNum 90] @ replicate 14 JNull))
   \<and> length ([JNum 90, JNum 90] @ replicate 14 JNull) = 16
   \<and> floats_of lib ([JNum 90, JNum 90] @ replicate 14 JNull) = Inl TypeError
   \<and> (\<exists>e. do_POST lib (with_driver Controller_driver) 0 1000 (servo_request wrong_kind)
            = (error_response e, [Logged e], 0))
   \<and> (\<exists>e. Handler_do_POST lib (Some (factory_attrs sample_args board_controller)) 1000
              (servo_request wrong_kind)
            = (Some ((factory_attrs sample_args board_controller)\<lparr>last_at := 1000\<rparr>),
               Inr (error_response e), []))
   \<and> handle_frame lib (with_driver Controller_driver) (body (servo_request wrong_kind))
       = (Inr (), [])
   \<and> Handler_do_POST lib (Some (factory_attrs sample_args board_controller)) 1000
        ((servo_request wrong_kind)\<lparr>body := Json (JObj partial_items)\<rparr>)
       = (Some ((factory_attrs sample_args board_controller)\<lparr>last_at := 1000\<rparr>),
          Inr (error_response TypeError), [])"
proof -
  have h1: "invalid_dense (body (servo_request wrong_kind))"
    by (simp add: servo_request_def wrong_kind_def)
  have h2: "path (servo_request wrong_kind) = ''/servo''" by (simp add: servo_request_def)
  have h3: "content_length (servo_request wrong_kind) = Some ''100''"
    by (simp add: servo_request_def)
  have h4: "str_to_int lib ''100'' = Some 100" by code_simp
  have h5: "(0::int) < 100" by simp
  have h6: "\<not> 1000 - last_at (factory_attrs sample_args board_controller)
         < min_interval_s (factory_attrs sample_args board_controller)"
    by (simp add: factory_attrs_def sample_args_def)
  have h7: "\<not> sparse_tagged (body (servo_request wrong_kind))"
    by (simp add: servo_request_def wrong_kind_def)
  have h8: "map_of partial_items ''kind'' = Some (JStr ''humanoid16'')"
    by (simp add: partial_items_def)
  have h9: "map_of partial_items ''degrees'' = Some (JArr ([JNum 90, JNum 90] @ replicate 14 JNull))"
    by (simp add: partial_items_def)
  have h10: "length ([JNum 90, JNum 90] @ replicate 14 JNull) = 16" by simp
  have h11: "floats_of lib ([JNum 90, JNum 90] @ replicate 14 JNull) = Inl TypeError"
    by (simp del: float_of.simps(1) add: float_of_90 bind_sum_def numeral_eq_Suc)
  have h12: "\<exists>kvs. body (servo_request wrong_kind) = Json (JObj kvs)"
    by (simp add: servo_request_def wrong_kind_def)
  show ?thesis
    using h1 h2 h3 h4 h5 h6 h7 h8 h9 h10 h11 h12
      C2_invalid_dense_rejected [OF h1 h2 h3 h4 h5 h6, where R = "with_driver Controller_driver"
        and last_log_time = 0 and R' = "with_driver Controller_driver"
        and kvs = partial_items and ds = "[JNum 90, JNum 90] @ replicate 14 JNull"
        and e'' = TypeError]
    by blast
qed

text \<open>
  C2 as stated fails twice. The streaming receiver surfaces nothing: a frame with a wrong
  discriminator leaves no reply and no log. And the HTTP receiver converts each entry only when
  its turn comes: with a third entry that is not a number, servos 1 and 2 have been driven
  when the request is answered 400.
\<close>

theorem C2_counterexample:
  "handler lib (with_driver Controller_driver) [Json wrong_kind]
     = \<lparr>ws_trace = [], ws_sent = [], processed = 1, ended_by = None\<rparr>
   \<and> do_POST lib (with_driver Controller_driver) 0 1000 (servo_request (JObj partial_items))
     = (error_response TypeError,
        [Hw (Call set_bus_servo_pulse 1 500 80), Hw (Call set_bus_servo_pulse 2 500 80),
         Logged TypeError], 0)"
proof -
  have n: "degrees_to_pulse L JNull = Inl TypeError" for L by (simp add: degrees_to_pulse_def)
  have r: "replicate 14 JNull
           = [JNull, JNull, JNull, JNull, JNull, JNull, JNull, JNull, JNull, JNull, JNull, JNull,
              JNull, JNull]"
    by (simp add: numeral_eq_Suc)
  have a: "handler lib (with_driver Controller_driver) [Json wrong_kind]
     = \<lparr>ws_trace = [], ws_sent = [], processed = 1, ended_by = None\<rparr>"
    by (simp add: handle_frame_def wrong_kind_def bind_run_simps lift_def)
  have b: "do_POST lib (with_driver Controller_driver) 0 1000 (servo_request (JObj partial_items))
     = (error_response TypeError,
        [Hw (Call set_bus_servo_pulse 1 500 80), Hw (Call set_bus_servo_pulse 2 500 80),
         Logged TypeError], 0)"
    by (simp add: do_POST_def post_command_def read_msg_def partial_items_def n r
          set_bus_servo_def run_simps sample_simps)
  show ?thesis using a b by simp
qed

subsection \<open>The streaming connection\<close>

lemma handler_stops_at_bad_frame:
  "loads m = Inl e \<Longrightarrow>
   handler L R (m # rest) = \<lparr>ws_trace = [Logged e], ws_sent = [], processed = 1, ended_by = Some e\<rparr>"
  by (simp add: handle_frame_def bind_run_simps lift_def)

lemma handler_dense90:
  "handle_frame lib (with_driver Controller_driver) (Json dense90)
     = (Inr (), map (\<lambda>i. Hw (Call set_bus_servo_pulse i 500 80))
                  [1, 2, 3, 4, 5, 6, 7, 8, 9, 10, 11, 12, 13, 14, 15, 16])"
  by (simp add: handle_frame_def ws_set_bus_servo_def run_simps sample_simps)

text \<open>
  C8. A frame that is not valid JSON is logged, but the connection does not stay open: the
  \<open>try\<close> encloses the whole loop, so the exception leaves it and the handler returns. A valid
  dense frame that follows the bad one is never processed, though alone it drives all
  sixteen servos; after a frame that is merely skipped (a wrong \<open>kind\<close>) the same frame is
  processed and the loop goes on.
\<close>

theorem C8_malformed_frame_drops_connection:
  "handler lib (with_driver Controller_driver) [BadJson, Json dense90]
     = \<lparr>ws_trace = [Logged JSONDecodeError], ws_sent = [], processed = 1,
        ended_by = Some JSONDecodeError\<rparr>
   \<and> processed (handler lib (with_driver Controller_driver) [Json dense90]) = 1
   \<and> ended_by (handler lib (with_driver Controller_driver) [Json dense90]) = None
   \<and> length (hw_calls (ws_trace (handler lib (with_driver Controller_driver) [Json dense90])))
       = 16
   \<and> processed (handler lib (with_driver Controller_driver) [Json wrong_kind, Json dense90]) = 2
   \<and> ended_by (handler lib (with_driver Controller_driver) [Json wrong_kind, Json dense90])
       = None
   \<and> length (hw_calls (ws_trace
        (handler lib (with_driver Controller_driver) [Json wrong_kind, Json dense90]))) = 16"
proof -
  have w: "handle_frame lib (with_driver Controller_driver) (Json wrong_kind) = (Inr (), [])"
    by (simp add: handle_frame_def wrong_kind_def bind_run_simps lift_def)
  show ?thesis
    using handler_stops_at_bad_frame [of BadJson JSONDecodeError lib
        "with_driver Controller_driver" "[Json dense90]"]
    by (simp add: handler_dense90 w hw_calls_simps)
qed

text \<open>
  C6. The client's \<open>send_ping\<close> sends \<open>{"type": "ping"}\<close> and waits for a pong. The receiver
  makes no driver call for that frame, but it sends nothing either: the frame falls through
  to the \<open>kind\<close> test and is skipped, and the client's wait ends in a timeout.
\<close>

theorem C6_ping_gets_no_pong:
  "handle_frame L R (Json ping_frame) = (Inr (), [])
   \<and> ws_sent (handler L R (Json ping_frame # rest)) = []
   \<and> send_ping None = Inl TimeoutError"
  using handler_never_sends [of L R "Json ping_frame # rest"]
  by (simp add: handle_frame_def ping_frame_def bind_run_simps send_ping_def)

text \<open>
  C7. With a driver whose bus servo 1 raises, the HTTP receiver logs the error and still
  calls servos 2..16. The streaming receiver and the rate-limited server have no \<open>try\<close> in
  their setters: the first error ends the batch after one call, ends the streaming
  connection, and makes the server answer 400.
\<close>

theorem C7_driver_error_aborts_batch:
  "handler lib (with_driver faulty_driver) [Json dense90]
     = \<lparr>ws_trace = [Hw (Call set_bus_servo_pulse 1 500 80), Logged DriverError],
        ws_sent = [], processed = 1, ended_by = Some DriverError\<rparr>
   \<and> snd (Handler_do_POST lib (Some (factory_attrs sample_args faulty_controller)) 1000
             (servo_request dense90))
     = (Inr (error_response DriverError), [Hw (Call set_bus_servo_pulse 1 500 80)])
   \<and> hw_calls (fst (snd (do_POST lib (with_driver faulty_driver) 0 1000 (servo_request dense90))))
     = map (\<lambda>i. Call set_bus_servo_pulse i 500 80) [1, 2, 3, 4, 5, 6, 7, 8, 9, 10, 11, 12, 13, 14, 15, 16]"
proof -
  have a: "handler lib (with_driver faulty_driver) [Json dense90]
     = \<lparr>ws_trace = [Hw (Call set_bus_servo_pulse 1 500 80), Logged DriverError],
        ws_sent = [], processed = 1, ended_by = Some DriverError\<rparr>"
    by (simp add: handle_frame_def ws_set_bus_servo_def run_simps sample_simps)
  have b: "snd (Handler_do_POST lib (Some (factory_attrs sample_args faulty_controller)) 1000
             (servo_request dense90))
     = (Inr (error_response DriverError), [Hw (Call set_bus_servo_pulse 1 500 80)])"
    by (simp del: float_of.simps
          add: Handler_do_POST_def post_try_def parse_payload_def float_of_90
            TonyPiController_set_bus_servo_def run_simps sample_simps)
  have c: "hw_calls (fst (snd (do_POST lib (with_driver faulty_driver) 0 1000
                                 (servo_request dense90))))
     = map (\<lambda>i. Call set_bus_servo_pulse i 500 80)
         [1, 2, 3, 4, 5, 6, 7, 8, 9, 10, 11, 12, 13, 14, 15, 16]"
    by (simp add: do_POST_def post_command_def read_msg_def set_bus_servo_def
          run_simps sample_simps)
  show ?thesis using a b c by simp
qed

subsection \<open>The rate limiter across requests\<close>

text \<open>
  C3. Two dense commands 10 ms apart, with a minimum interval of 100 ms. As the server runs
  them, \<open>Handler(...)\<close> handles each request inside the constructor, before the factory has
  assigned \<open>last_at\<close>: both end in \<open>AttributeError\<close> and neither is applied. Nor is the
  timestamp shared: every handler starts from the factory's \<open>last_at = 0\<close>, and on such a
  handler each of the two commands is admitted and applied. Only on one handler that keeps
  its \<open>last_at\<close> is the second command dropped.
\<close>

theorem C3_rate_limiter_not_shared:
  "tonypi_main lib (Imported Board_driver) ImportError sample_args
     [(1000, servo_request dense90), (1000.01, servo_request dense90)]
     = Inr [(Inl AttributeError, []), (Inl AttributeError, [])]
   \<and> min_interval_s (factory_attrs sample_args board_controller) = 1 / 10
   \<and> length (hw_calls (snd (snd (Handler_do_POST lib
        (Some (factory_attrs sample_args board_controller)) 1000 (servo_request dense90))))) = 16
   \<and> length (hw_calls (snd (snd (Handler_do_POST lib
        (Some (factory_attrs sample_args board_controller)) 1000.01 (servo_request dense90))))) = 16
   \<and> snd (snd (Handler_do_POST lib
        (Some ((factory_attrs sample_args board_controller)\<lparr>last_at := 1000\<rparr>)) 1000.01
        (servo_request dense90))) = []"
proof -
  have a: "tonypi_main lib (Imported Board_driver) ImportError sample_args
     [(1000, servo_request dense90), (1000.01, servo_request dense90)]
     = Inr [(Inl AttributeError, []), (Inl AttributeError, [])]"
    by (simp add: tonypi_main_def TonyPiController_init_def handler_factory_def
          Handler_do_POST_def servo_request_def)
  have b: "min_interval_s (factory_attrs sample_args board_controller) = 1 / 10"
    by (simp add: factory_attrs_def sample_args_def)
  have p: "post_try lib ((factory_attrs sample_args board_controller)\<lparr>last_at := now\<rparr>)
             (servo_request dense90)
           = (Inr (), map (\<lambda>i. Hw (Call setBusServoPulse i 500 80))
                        [1, 2, 3, 4, 5, 6, 7, 8, 9, 10, 11, 12, 13, 14, 15, 16])" for now
    by (simp del: float_of.simps
          add: post_try_def parse_payload_def float_of_90 TonyPiController_set_bus_servo_def
            run_simps sample_simps)
  have c: "length (hw_calls (snd (snd (Handler_do_POST lib
        (Some (factory_attrs sample_args board_controller)) 1000 (servo_request dense90))))) = 16"
    using p [of 1000]
    by (simp add: Handler_do_POST_def Let_def servo_request_def factory_attrs_def
          sample_args_def hw_calls_simps)
  have d: "length (hw_calls (snd (snd (Handler_do_POST lib
        (Some (factory_attrs sample_args board_controller)) 1000.01 (servo_request dense90)))))
        = 16"
    using p [of "1000.01"]
    by (simp add: Handler_do_POST_def Let_def servo_request_def factory_attrs_def
          sample_args_def hw_calls_simps)
  have e: "snd (snd (Handler_do_POST lib
        (Some ((factory_attrs sample_args board_controller)\<lparr>last_at := 1000\<rparr>)) 1000.01
        (servo_request dense90))) = []"
    by (simp add: Handler_do_POST_def servo_request_def factory_attrs_def sample_args_def)
  show ?thesis using a b c d e by simp
qed

end
